theory Spec2Isabelle
  imports Main
begin

section \<open>TTL cache (cacheManager: \<open>src/unnamed/part_000\<close>)\<close>

text \<open>
  The cache is a JavaScript \<open>Map\<close> from string keys to items
  \<open>{value, expires, timestamp}\<close>. A \<open>Map\<close> iterates in insertion order and
  \<open>getOldestKey\<close> depends on that order for ties, so the store is an association
  list in insertion order. \<open>Date.now()\<close> is an argument (milliseconds, an integer).
\<close>

record 'v cache_item =
  item_value :: 'v
  expires :: int
  timestamp :: int

type_synonym 'v cache = "(string \<times> 'v cache_item) list"

record cache_options =
  maxSize :: int
  defaultTTL :: int
  cleanupInterval :: int

definition DEFAULT_OPTIONS :: cache_options where
  "DEFAULT_OPTIONS =
     \<lparr>maxSize = 100, defaultTTL = 60 * 1000, cleanupInterval = 5 * 60 * 1000\<rparr>"

text \<open>The four \<open>Map\<close> primitives the module uses: \<open>has\<close>, \<open>get\<close>, \<open>set\<close>
  (an existing key keeps its position, a new key is appended) and \<open>delete\<close>.\<close>

fun map_has :: "'v cache \<Rightarrow> string \<Rightarrow> bool" where
  "map_has [] key = False"
| "map_has ((k, item) # rest) key = (k = key \<or> map_has rest key)"

fun map_get :: "'v cache \<Rightarrow> string \<Rightarrow> 'v cache_item option" where
  "map_get [] key = None"
| "map_get ((k, item) # rest) key = (if k = key then Some item else map_get rest key)"

fun map_set :: "'v cache \<Rightarrow> string \<Rightarrow> 'v cache_item \<Rightarrow> 'v cache" where
  "map_set [] key new = [(key, new)]"
| "map_set ((k, item) # rest) key new =
     (if k = key then (k, new) # rest else (k, item) # map_set rest key new)"

fun map_delete :: "'v cache \<Rightarrow> string \<Rightarrow> 'v cache" where
  "map_delete [] key = []"
| "map_delete ((k, item) # rest) key =
     (if k = key then map_delete rest key else (k, item) # map_delete rest key)"

text \<open>
  \<open>getOldestKey\<close>: the \<open>forEach\<close> loop with its two locals. \<open>oldestTimestamp\<close>
  starts at \<open>Infinity\<close>, modelled by \<open>None\<close>: every integer timestamp is below it.
\<close>

fun oldest_scan ::
  "'v cache \<Rightarrow> string option \<times> int option \<Rightarrow> string option \<times> int option" where
  "oldest_scan [] acc = acc"
| "oldest_scan ((k, item) # rest) (oldestKey, oldestTimestamp) =
     (if (case oldestTimestamp of None \<Rightarrow> True | Some t \<Rightarrow> timestamp item < t)
      then oldest_scan rest (Some k, Some (timestamp item))
      else oldest_scan rest (oldestKey, oldestTimestamp))"

definition getOldestKey :: "'v cache \<Rightarrow> string option" where
  "getOldestKey c = (if length c = 0 then None else fst (oldest_scan c (None, None)))"

text \<open>
  \<open>set(key, value, ttl = options.defaultTTL)\<close>. The empty string is the falsy key.
  \<open>Date.now()\<close> is read twice (for \<open>expires\<close> and for \<open>timestamp\<close>): \<open>now1\<close>
  and \<open>now2\<close>. An omitted \<open>ttl\<close> is \<open>None\<close>. The result is the returned boolean
  and the cache afterwards.
\<close>

definition cache_set ::
  "cache_options \<Rightarrow> int \<Rightarrow> int \<Rightarrow> string \<Rightarrow> 'v \<Rightarrow> int option \<Rightarrow> 'v cache
     \<Rightarrow> bool \<times> 'v cache" where
  "cache_set opts now1 now2 key v ttl c =
     (if key = [] then (False, c)
      else
        let c1 =
          (if maxSize opts \<le> int (length c) \<and> \<not> map_has c key
           then (case getOldestKey c of
                   None \<Rightarrow> c
                 | Some oldestKey \<Rightarrow> if oldestKey \<noteq> [] then map_delete c oldestKey else c)
           else c)
        in (True,
            map_set c1 key
              \<lparr>item_value = v,
               expires = now1 + (case ttl of None \<Rightarrow> defaultTTL opts | Some t \<Rightarrow> t),
               timestamp = now2\<rparr>))"

text \<open>\<open>get(key)\<close>: \<open>None\<close> is the returned \<open>null\<close>.\<close>

definition cache_get :: "int \<Rightarrow> string \<Rightarrow> 'v cache \<Rightarrow> 'v option \<times> 'v cache" where
  "cache_get now key c =
     (if key = [] \<or> \<not> map_has c key then (None, c)
      else (case map_get c key of
              None \<Rightarrow> (None, c)
            | Some item \<Rightarrow>
                if expires item < now then (None, map_delete c key)
                else (Some (item_value item), c)))"

definition cache_has :: "int \<Rightarrow> string \<Rightarrow> 'v cache \<Rightarrow> bool \<times> 'v cache" where
  "cache_has now key c =
     (if key = [] \<or> \<not> map_has c key then (False, c)
      else (case map_get c key of
              None \<Rightarrow> (False, c)
            | Some item \<Rightarrow>
                if expires item < now then (False, map_delete c key)
                else (True, c)))"

definition cache_remove :: "string \<Rightarrow> 'v cache \<Rightarrow> bool \<times> 'v cache" where
  "cache_remove key c = (map_has c key, map_delete c key)"

definition cache_clear :: "'v cache \<Rightarrow> bool \<times> 'v cache" where
  "cache_clear c = (True, [])"

definition cache_size :: "'v cache \<Rightarrow> nat" where
  "cache_size c = length c"

text \<open>\<open>cleanup()\<close>: the number of removed items and the cache afterwards.\<close>

definition cleanup :: "int \<Rightarrow> 'v cache \<Rightarrow> nat \<times> 'v cache" where
  "cleanup now c =
     (length (filter (\<lambda>p. expires (snd p) < now) c),
      filter (\<lambda>p. \<not> expires (snd p) < now) c)"

text \<open>
  The shape every cache built by these operations has: keys are pairwise different
  (it is a \<open>Map\<close>) and none is the empty string (\<open>set\<close> refuses it).
\<close>

definition cache_wf :: "'v cache \<Rightarrow> bool" where
  "cache_wf c = (distinct (map fst c) \<and> [] \<notin> fst ` set c)"

text \<open>The keys of \<open>c\<close> that are gone in \<open>c'\<close>, in the order of \<open>c\<close>.\<close>

definition evicted :: "'v cache \<Rightarrow> 'v cache \<Rightarrow> string list" where
  "evicted c c' = filter (\<lambda>k. \<not> map_has c' k) (map fst c)"

section \<open>JavaScript values the services compute with\<close>

text \<open>
  A JavaScript string is a \<open>string\<close>; a character stands for a code unit below 256.
  A number that can be \<open>NaN\<close> is a \<open>jsnum\<close>; every comparison with \<open>NaN\<close> is false.
\<close>

datatype jsnum = Num int | NaN

fun num_le :: "jsnum \<Rightarrow> int \<Rightarrow> bool" where
  "num_le (Num a) b = (a \<le> b)"
| "num_le NaN b = False"

fun num_add :: "jsnum \<Rightarrow> jsnum \<Rightarrow> jsnum" where
  "num_add (Num a) (Num b) = Num (a + b)"
| "num_add _ _ = NaN"

fun num_sub :: "jsnum \<Rightarrow> jsnum \<Rightarrow> jsnum" where
  "num_sub (Num a) (Num b) = Num (a - b)"
| "num_sub _ _ = NaN"

fun num_times :: "jsnum \<Rightarrow> int \<Rightarrow> jsnum" where
  "num_times (Num a) b = Num (a * b)"
| "num_times NaN b = NaN"

text \<open>Truthiness of a string that may be \<open>null\<close>, and of a number that may be \<open>null\<close>.\<close>

definition truthy :: "string option \<Rightarrow> bool" where
  "truthy s = (case s of None \<Rightarrow> False | Some t \<Rightarrow> t \<noteq> [])"

definition truthy_num :: "jsnum option \<Rightarrow> bool" where
  "truthy_num n = (case n of None \<Rightarrow> False | Some NaN \<Rightarrow> False | Some (Num k) \<Rightarrow> k \<noteq> 0)"

text \<open>\<open>String.prototype.trim\<close>: the white space and line terminators below 256.\<close>

definition is_space :: "char \<Rightarrow> bool" where
  "is_space c = ((of_char c :: nat) \<in> {9, 10, 11, 12, 13, 32, 160})"

definition trim :: "string \<Rightarrow> string" where
  "trim s = rev (dropWhile is_space (rev (dropWhile is_space s)))"

text \<open>\<open>toLowerCase\<close> on the letters below 256 (ASCII and Latin-1).\<close>

definition lower_char :: "char \<Rightarrow> char" where
  "lower_char c =
     (let n = (of_char c :: nat) in
      if (65 \<le> n \<and> n \<le> 90) \<or> (192 \<le> n \<and> n \<le> 222 \<and> n \<noteq> 215)
      then char_of (n + 32) else c)"

definition toLowerCase :: "string \<Rightarrow> string" where
  "toLowerCase s = map lower_char s"

text \<open>\<open>s.includes(p)\<close>: \<open>p\<close> occurs in \<open>s\<close> as a contiguous run.\<close>

fun starts_with :: "string \<Rightarrow> string \<Rightarrow> bool" where
  "starts_with s [] = True"
| "starts_with [] (p # ps) = False"
| "starts_with (c # cs) (p # ps) = (c = p \<and> starts_with cs ps)"

fun str_includes :: "string \<Rightarrow> string \<Rightarrow> bool" where
  "str_includes [] p = (p = [])"
| "str_includes (c # cs) p = (starts_with (c # cs) p \<or> str_includes cs p)"

text \<open>\<open>s.split(sep)\<close> for a one-character separator: \<open>''''.split('':'')\<close> is \<open>['''']\<close>.\<close>

fun split_on :: "char \<Rightarrow> string \<Rightarrow> string list" where
  "split_on sep [] = [[]]"
| "split_on sep (c # cs) =
     (if c = sep then [] # split_on sep cs
      else (case split_on sep cs of
              [] \<Rightarrow> [[c]]
            | w # ws \<Rightarrow> (c # w) # ws))"

text \<open>
  \<open>Number(s)\<close> on decimal integer literals: surrounding white space is dropped, the
  empty string is \<open>0\<close>, an optional sign is read. The other literals \<open>Number\<close> reads
  (a fraction, an exponent, hexadecimal, \<open>Infinity\<close>) are not integers of the model and
  are \<open>NaN\<close> here, like every other text.
\<close>

definition is_digit :: "char \<Rightarrow> bool" where
  "is_digit c = (48 \<le> (of_char c :: nat) \<and> (of_char c :: nat) \<le> 57)"

definition digit_val :: "char \<Rightarrow> int" where
  "digit_val c = int (of_char c) - 48"

definition decimal :: "string \<Rightarrow> int option" where
  "decimal s =
     (if s \<noteq> [] \<and> list_all is_digit s
      then Some (foldl (\<lambda>a c. 10 * a + digit_val c) 0 s) else None)"

definition js_Number :: "string \<Rightarrow> jsnum" where
  "js_Number s =
     (let t = trim s in
      if t = [] then Num 0
      else (case decimal t of
              Some n \<Rightarrow> Num n
            | None \<Rightarrow>
                if hd t = CHR ''-'' then (case decimal (tl t) of Some n \<Rightarrow> Num (- n) | None \<Rightarrow> NaN)
                else if hd t = CHR ''+'' then (case decimal (tl t) of Some n \<Rightarrow> Num n | None \<Rightarrow> NaN)
                else NaN))"

text \<open>
  \<open>const [h, m] = s.split('':'').map(Number)\<close>: the first two elements; a missing one
  is \<open>undefined\<close>, which is \<open>NaN\<close> in the arithmetic that follows.
\<close>

definition hours_minutes :: "string \<Rightarrow> jsnum \<times> jsnum" where
  "hours_minutes s =
     (case map js_Number (split_on CHR '':'' s) of
        [] \<Rightarrow> (NaN, NaN)
      | [h] \<Rightarrow> (h, NaN)
      | h # m # _ \<Rightarrow> (h, m))"

section \<open>Calendar analyzer (\<open>src/services/calendar/eventAnalyzer.js\<close>, \<open>src/unnamed/part_001\<close>)\<close>

subsection \<open>Parsing a scheduling request\<close>

text \<open>
  The object \<open>parseDateAndTime\<close> returns, typed after the JSON the prompt asks for
  (texts, an integer number of minutes, a list of texts). A decoded answer of the
  completion service may leave keys of the prompt out: \<open>p_absent\<close> lists the keys the
  object does not have. A field holds what reading the key gives: \<open>None\<close> is \<open>null\<close>,
  or \<open>undefined\<close> for a key that is absent (\<open>[]\<close> for absent attendees, which are
  read through the merge into the scheduling state only). Keys other than these eight
  are not modelled.
\<close>

datatype parsed_key =
    K_date | K_time | K_endTime | K_duration | K_title | K_description | K_attendees
  | K_location

record parsed =
  p_date :: "string option"
  p_time :: "string option"
  p_endTime :: "string option"
  p_duration :: "jsnum option"
  p_title :: "string option"
  p_description :: "string option"
  p_attendees :: "string list"
  p_location :: "string option"
  p_absent :: "parsed_key list"

text \<open>The object returned for an input that is empty or not a string; it has every key.\<close>

definition default_parsed :: parsed where
  "default_parsed =
     \<lparr>p_date = None, p_time = None, p_endTime = None, p_duration = Some (Num 60),
      p_title = Some ''New Event'', p_description = None, p_attendees = [],
      p_location = None, p_absent = []\<rparr>"

text \<open>
  ``Calculate duration if needed'' (\<open>eventAnalyzer.js\<close> lines 49--55, \<open>part_001\<close>
  lines 67--73): the difference of the two clock times in minutes, a day added when it
  is not positive. The assignment \<open>parsed.duration = durationMinutes\<close> gives the object
  the key if it had none.
\<close>

definition durationMinutes :: "jsnum \<times> jsnum \<Rightarrow> jsnum \<times> jsnum \<Rightarrow> jsnum" where
  "durationMinutes start fin =
     (let d = num_sub (num_add (num_times (fst fin) 60) (snd fin))
                      (num_add (num_times (fst start) 60) (snd start))
      in if num_le d 0 then num_add d (Num (24 * 60)) else d)"

definition inferDuration :: "parsed \<Rightarrow> parsed" where
  "inferDuration p =
     (if truthy (p_time p) \<and> truthy (p_endTime p) \<and> \<not> truthy_num (p_duration p)
      then p\<lparr>p_duration :=
                Some (durationMinutes (hours_minutes (the (p_time p)))
                                      (hours_minutes (the (p_endTime p)))),
              p_absent := removeAll K_duration (p_absent p)\<rparr>
      else p)"

text \<open>
  What \<open>parseDateAndTime\<close> consumes from outside: the completion service's answer to
  the parsing prompt built from the input (or the exception it raised), the decoding of
  the first \<open>{...}\<close> span of an answer (\<open>None\<close> when there is no span or
  \<open>JSON.parse\<close> throws), and the regular-expression fallback, a pure function of the
  input and the current date, whose object has every key.
\<close>

datatype error = Error string

record parse_env =
  generateParse :: "string \<Rightarrow> error + string"
  jsonObject :: "string \<Rightarrow> parsed option"
  regexParse :: "string \<Rightarrow> parsed"

text \<open>A request is a string or some other value (\<open>undefined\<close>, a number, ...).\<close>

datatype jsinput = Str string | NotString

definition parseDateAndTime :: "parse_env \<Rightarrow> jsinput \<Rightarrow> parsed" where
  "parseDateAndTime env userInput =
     (case userInput of
        NotString \<Rightarrow> default_parsed
      | Str u \<Rightarrow>
          if u = [] then default_parsed
          else (case generateParse env u of
                  Inl e \<Rightarrow> regexParse env u
                | Inr response \<Rightarrow>
                    (case jsonObject env (trim response) of
                       None \<Rightarrow> regexParse env u
                     | Some p \<Rightarrow> inferDuration p)))"

subsection \<open>Free slots of a day\<close>

text \<open>
  Instants are milliseconds since the epoch. Local time is UTC plus a fixed offset
  \<open>tz\<close> (milliseconds); a change of offset during the day (daylight saving) is not
  modelled. A calendar event is timed (\<open>start.dateTime\<close>, \<open>end.dateTime\<close>) or
  all-day (\<open>start.date\<close>).
\<close>

datatype event = Timed int int | AllDay int

fun event_start :: "event \<Rightarrow> int" where
  "event_start (Timed s e) = s"
| "event_start (AllDay d) = d"

record slot =
  slot_start :: int
  slot_end :: int

definition MINUTE :: int where "MINUTE = 60 * 1000"
definition HOUR :: int where "HOUR = 60 * 60 * 1000"
definition DAY :: int where "DAY = 24 * 60 * 60 * 1000"

text \<open>\<open>d.setHours(h, m, 0, 0)\<close>: the instant at local time \<open>h:m\<close> on \<open>d\<close>'s local day.\<close>

definition setHours :: "int \<Rightarrow> int \<Rightarrow> int \<Rightarrow> int \<Rightarrow> int" where
  "setHours tz d h m = d - ((d + tz) mod DAY) + h * HOUR + m * MINUTE"

text \<open>\<open>a.toDateString() === b.toDateString()\<close>: the same local day.\<close>

definition sameLocalDay :: "int \<Rightarrow> int \<Rightarrow> int \<Rightarrow> bool" where
  "sameLocalDay tz a b = ((a + tz) div DAY = (b + tz) div DAY)"

text \<open>
  ``Round up to next 30 minutes'': \<open>Math.ceil(now.getMinutes() / 30) * 30\<close>, then
  \<open>now.setMinutes(rounded, 0, 0)\<close>, which also clears seconds and milliseconds.
\<close>

definition roundUpHalfHour :: "int \<Rightarrow> int \<Rightarrow> int" where
  "roundUpHalfHour tz now =
     (let minutes = ((now + tz) div MINUTE) mod 60;
          roundedMinutes = (if minutes = 0 then 0 else if minutes \<le> 30 then 30 else 60)
      in now - ((now + tz) mod HOUR) + roundedMinutes * MINUTE)"

text \<open>
  The inner \<open>while\<close> loop: slots every 30 minutes from \<open>slotStart\<close> while the slot
  still ends by \<open>limit\<close>.
\<close>

function slots_from :: "int \<Rightarrow> int \<Rightarrow> int \<Rightarrow> slot list" where
  "slots_from slotStart durationMs limit =
     (if slotStart + durationMs \<le> limit
      then \<lparr>slot_start = slotStart, slot_end = slotStart + durationMs\<rparr>
             # slots_from (slotStart + 30 * MINUTE) durationMs limit
      else [])"
  by pat_completeness auto
termination
  by (relation "measure (\<lambda>(s, d, l). nat (l - d - s + 1))") (auto simp: MINUTE_def)

declare slots_from.simps [simp del]

text \<open>
  The \<open>for\<close> loop over the sorted events, threading \<open>currentStart\<close>; it returns the
  slots pushed and the final \<open>currentStart\<close>.
\<close>

fun scan_events :: "int \<Rightarrow> event list \<Rightarrow> int \<Rightarrow> slot list \<times> int" where
  "scan_events durationMs [] currentStart = ([], currentStart)"
| "scan_events durationMs (AllDay d # es) currentStart = scan_events durationMs es currentStart"
| "scan_events durationMs (Timed eventStart eventEnd # es) currentStart =
     (let pushed =
            (if currentStart < eventStart \<and> durationMs \<le> eventStart - currentStart
             then slots_from currentStart durationMs eventStart else []);
          cursor = (if currentStart < eventEnd then eventEnd else currentStart);
          (rest, final) = scan_events durationMs es cursor
      in (pushed @ rest, final))"

text \<open>
  \<open>findAvailableTimeSlots(targetDate, duration)\<close>. \<open>targetDate = Some t\<close> is a
  \<open>Date\<close> for the instant \<open>t\<close>, \<open>None\<close> a missing or invalid date.
  \<open>getCalendarEvents\<close> catches its own errors and returns a list, so it is a function
  of the window; \<open>now\<close> is \<open>new Date()\<close>. Instants are unbounded integers here: the
  ends of the \<open>Date\<close> range (8.64e15 ms either side of the epoch), where
  \<open>setHours\<close> gives \<open>Invalid Date\<close> and \<open>toISOString\<close> throws into the \<open>catch\<close> of
  the source, are not modelled in this function.
\<close>

definition findAvailableTimeSlots ::
  "int \<Rightarrow> int \<Rightarrow> (int \<Rightarrow> int \<Rightarrow> event list) \<Rightarrow> int option \<Rightarrow> int \<Rightarrow> slot list" where
  "findAvailableTimeSlots tz now getCalendarEvents targetDate duration =
     (case targetDate of
        None \<Rightarrow> []
      | Some target \<Rightarrow>
          let startDate = setHours tz target 0 0;
              endDate = setHours tz target 23 59 + 59 * 1000 + 999;
              events = getCalendarEvents startDate endDate;
              dayStart0 = setHours tz target 9 0;
              dayEnd = setHours tz target 17 0;
              dayStart =
                (if sameLocalDay tz target now \<and> dayStart0 < now
                 then roundUpHalfHour tz now else dayStart0);
              sortedEvents = sort_key event_start events;
              durationMs = duration * 60 * 1000;
              (gaps, currentStart) = scan_events durationMs sortedEvents dayStart;
              tail = (if currentStart < dayEnd then slots_from currentStart durationMs dayEnd else [])
          in take 5 (gaps @ tail))"



section \<open>Mail composition flow (emailService: \<open>src/unnamed/part_002\<close>, \<open>src/services/email.js\<close>)\<close>

text \<open>
  The stage is a string in the source; these are the values the code assigns. The
  \<open>switch\<close> sends \<open>init\<close> and \<open>checking_context\<close> to its \<open>default\<close> branch.
\<close>

datatype email_stage =
    M_init | M_collecting_recipient | M_collecting_purpose | M_checking_context
  | M_collecting_context | M_generating | M_confirming | M_editing

record context_analysis =
  hasAllContext :: bool
  missingInfo :: "string option"

text \<open>
  \<open>emailState.data\<close>. \<open>None\<close> is \<open>undefined\<close>: \<open>to\<close> when the entities carry
  none, \<open>startTime\<close> in the object a reset assigns. A style profile is kept as text.
\<close>

record email_data =
  e_to :: "string option"
  e_subject :: string
  e_body :: string
  e_purpose :: string
  e_styleAnalysis :: "string option"
  e_contextAnalysis :: "context_analysis option"
  e_startTime :: "int option"

record email_state =
  e_active :: bool
  e_stage :: email_stage
  e_data :: email_data

text \<open>The object assigned on timeout, send, cancel, unknown stage and unexpected error.\<close>

definition reset_email :: email_state where
  "reset_email =
     \<lparr>e_active = False, e_stage = M_init,
      e_data = \<lparr>e_to = Some [], e_subject = [], e_body = [], e_purpose = [],
                e_styleAnalysis = None, e_contextAnalysis = None, e_startTime = None\<rparr>\<rparr>"

definition isInEmailFlow :: "email_state \<Rightarrow> bool" where
  "isInEmailFlow st = e_active st"

text \<open>
  The messages of the flow, one constructor for each string the handler returns:
  \<^item> \<open>AskPurposeFor to\<close>: ``Great, I'll help you draft an email to \<open>to\<close>. What's the
    purpose of this email?''
  \<^item> \<open>AskRecipient\<close>: ``Who would you like to send an email to? (Please provide their
    email address)''
  \<^item> \<open>MailTimedOut\<close>: ``It looks like our email drafting session timed out. Let's start
    over. What would you like to do?''
  \<^item> \<open>ThanksAskPurpose to\<close>: ``Thanks! What's the purpose of your email to \<open>to\<close>?''
  \<^item> \<open>InvalidAddress\<close>: ``I didn't catch a valid email address. ...''
  \<^item> \<open>AskClarify info\<close>: ``I can draft that email, but could you clarify \<open>info\<close>? ...''
  \<^item> \<open>Draft to subject body\<close>: ``Here's your personalized email draft: ... Should I send
    this email? (yes/no)''
  \<^item> \<open>GenerationFailed\<close>: ``I encountered an issue creating your email. Could you please
    describe the purpose again?''
  \<^item> \<open>SendResult text\<close>: the string \<open>sendEmail\<close> returned
  \<^item> \<open>AskWhatToChange\<close>: ``Would you like to edit the email, change the recipient, or
    cancel?''
  \<^item> \<open>ConfirmYesNo\<close>: ``Please confirm with 'yes' to send the email or 'no' to make
    changes.''
  \<^item> \<open>DescribeAgain\<close>: ``Please describe again what you want to say in this email.''
  \<^item> \<open>AskNewRecipient\<close>: ``Who would you like to send this email to instead?''
  \<^item> \<open>Canceled\<close>: ``Email canceled. What else can I help you with?''
  \<^item> \<open>EditOptions\<close>: ``Would you like to edit the email content, change the recipient,
    or cancel?''
  \<^item> \<open>StillWorking\<close>: ``I'm working on your email draft, please wait a moment...''
  \<^item> \<open>LostTrack\<close>: ``I seem to have lost track of our email drafting. Let's start
    over. Would you like to send an email?''
  \<^item> \<open>MailRecovery\<close>: ``I encountered an unexpected error while working on your email.
    Let's start over. What would you like to do?''
\<close>

datatype mail_reply =
    AskPurposeFor string | AskRecipient | MailTimedOut | ThanksAskPurpose string
  | InvalidAddress | AskClarify string | Draft "string option" string string
  | GenerationFailed | SendResult string | AskWhatToChange | ConfirmYesNo | DescribeAgain
  | AskNewRecipient | Canceled | EditOptions | StillWorking | LostTrack | MailRecovery

text \<open>
  What the flow consumes from outside: the first match of the address pattern in a
  text, the context verdict (\<open>analyzeContextCompleteness\<close> catches its own errors), the
  style analysis and the draft generation (either may throw), and the mail backend
  behind \<open>sendEmail\<close>.
\<close>

record mail_env =
  matchEmail :: "string \<Rightarrow> string option"
  analyzeContextCompleteness :: "string option \<Rightarrow> string \<Rightarrow> context_analysis"
  analyzeEmailContext :: "string option \<Rightarrow> error + string"
  generateHumanizedEmail :: "string option \<Rightarrow> string \<Rightarrow> string \<Rightarrow> error + string \<times> string"
  gmailSend :: "string option \<Rightarrow> string \<Rightarrow> string \<Rightarrow> error + unit"

text \<open>
  \<open>sendEmail(to, subject, body)\<close> (\<open>email.js\<close>): the whole body is inside
  \<open>try\<close>, so it returns a string whether or not the backend fails, and never throws.
\<close>

definition sendEmail :: "mail_env \<Rightarrow> string option \<Rightarrow> string \<Rightarrow> string \<Rightarrow> string" where
  "sendEmail env to subject body =
     (case gmailSend env to subject body of
        Inr u \<Rightarrow> ''Email sent successfully!''
      | Inl (Error message) \<Rightarrow> ''Error sending email: '' @ message)"

text \<open>One call of \<open>sendEmail\<close>: recipient, subject, body.\<close>

type_synonym send_call = "string option \<times> string \<times> string"

text \<open>\<open>proceedToEmailGeneration(state)\<close>: both failures are caught and send the flow
  back to \<open>collecting_purpose\<close>.\<close>

definition proceedToEmailGeneration :: "mail_env \<Rightarrow> email_state \<Rightarrow> mail_reply \<times> email_state" where
  "proceedToEmailGeneration env st =
     (case analyzeEmailContext env (e_to (e_data st)) of
        Inl err \<Rightarrow> (GenerationFailed, st\<lparr>e_stage := M_collecting_purpose\<rparr>)
      | Inr style \<Rightarrow>
          let st1 = st\<lparr>e_data := (e_data st)\<lparr>e_styleAnalysis := Some style\<rparr>\<rparr> in
          (case generateHumanizedEmail env (e_to (e_data st1)) (e_purpose (e_data st1)) style of
             Inl err \<Rightarrow> (GenerationFailed, st1\<lparr>e_stage := M_collecting_purpose\<rparr>)
           | Inr (subject, body) \<Rightarrow>
               (Draft (e_to (e_data st1)) subject body,
                st1\<lparr>e_data := (e_data st1)\<lparr>e_subject := subject, e_body := body\<rparr>,
                    e_stage := M_confirming\<rparr>)))"

text \<open>
  The body of the outer \<open>try\<close> of \<open>handleEmailIntent(userInput, entities)\<close>. It
  either returns a message or throws; in both cases it leaves a state and the list of
  \<open>sendEmail\<close> calls it made. The only expression that can throw is a string method
  called on an input that is not a string (\<open>match\<close>, \<open>trim\<close>, \<open>toLowerCase\<close>);
  the inner \<open>try\<close> around \<open>sendEmail\<close> never catches anything, as \<open>sendEmail\<close>
  does not throw. The entities are an object with string fields, an association list.
\<close>

datatype 'a outcome = Returned 'a | Threw

definition mail_timed_out :: "int \<Rightarrow> email_state \<Rightarrow> bool" where
  "mail_timed_out now st =
     (case e_startTime (e_data st) of None \<Rightarrow> False | Some t \<Rightarrow> 15 * 60 * 1000 < now - t)"

definition email_turn ::
  "mail_env \<Rightarrow> int \<Rightarrow> jsinput \<Rightarrow> (string \<times> string) list \<Rightarrow> email_state
     \<Rightarrow> mail_reply outcome \<times> email_state \<times> send_call list" where
  "email_turn env now userInput entities st =
     (if \<not> e_active st then
        let to = (if map_of entities ''to'' = Some ''MISSING'' then Some [] else map_of entities ''to'');
            st1 = \<lparr>e_active = True, e_stage = M_collecting_purpose,
                   e_data = \<lparr>e_to = to, e_subject = [], e_body = [], e_purpose = [],
                             e_styleAnalysis = None, e_contextAnalysis = None,
                             e_startTime = Some now\<rparr>\<rparr>
        in if truthy to then (Returned (AskPurposeFor (the to)), st1, [])
           else (Returned AskRecipient, st1\<lparr>e_stage := M_collecting_recipient\<rparr>, [])
      else if mail_timed_out now st then (Returned MailTimedOut, reset_email, [])
      else
        (case e_stage st of
           M_collecting_recipient \<Rightarrow>
             (case userInput of
                NotString \<Rightarrow> (Threw, st, [])
              | Str u \<Rightarrow>
                  (case matchEmail env u of
                     Some m \<Rightarrow>
                       (Returned (ThanksAskPurpose m),
                        st\<lparr>e_data := (e_data st)\<lparr>e_to := Some m\<rparr>,
                           e_stage := M_collecting_purpose\<rparr>, [])
                   | None \<Rightarrow> (Returned InvalidAddress, st, [])))
         | M_collecting_purpose \<Rightarrow>
             (case userInput of
                NotString \<Rightarrow> (Threw, st, [])
              | Str u \<Rightarrow>
                  let st1 = st\<lparr>e_data := (e_data st)\<lparr>e_purpose := trim u\<rparr>,
                               e_stage := M_checking_context\<rparr>;
                      contextAnalysis =
                        analyzeContextCompleteness env (e_to (e_data st1)) (e_purpose (e_data st1))
                  in if \<not> hasAllContext contextAnalysis \<and> truthy (missingInfo contextAnalysis)
                     then (Returned (AskClarify (the (missingInfo contextAnalysis))),
                           st1\<lparr>e_stage := M_collecting_context,
                               e_data := (e_data st1)\<lparr>e_contextAnalysis := Some contextAnalysis\<rparr>\<rparr>,
                           [])
                     else (case proceedToEmailGeneration env (st1\<lparr>e_stage := M_generating\<rparr>) of
                             (reply, st2) \<Rightarrow> (Returned reply, st2, [])))
         | M_collecting_context \<Rightarrow>
             (case userInput of
                NotString \<Rightarrow> (Threw, st, [])
              | Str u \<Rightarrow>
                  let st1 = st\<lparr>e_data := (e_data st)\<lparr>e_purpose := e_purpose (e_data st) @ '' '' @ trim u\<rparr>,
                               e_stage := M_generating\<rparr>
                  in (case proceedToEmailGeneration env st1 of
                        (reply, st2) \<Rightarrow> (Returned reply, st2, [])))
         | M_confirming \<Rightarrow>
             (case userInput of
                NotString \<Rightarrow> (Threw, st, [])
              | Str u \<Rightarrow>
                  if str_includes (toLowerCase u) ''yes'' then
                    (Returned (SendResult
                       (sendEmail env (e_to (e_data st)) (e_subject (e_data st)) (e_body (e_data st)))),
                     reset_email,
                     [(e_to (e_data st), e_subject (e_data st), e_body (e_data st))])
                  else if str_includes (toLowerCase u) ''no'' then
                    (Returned AskWhatToChange, st\<lparr>e_stage := M_editing\<rparr>, [])
                  else (Returned ConfirmYesNo, st, []))
         | M_editing \<Rightarrow>
             (case userInput of
                NotString \<Rightarrow> (Threw, st, [])
              | Str u \<Rightarrow>
                  if str_includes (toLowerCase u) ''edit'' then
                    (Returned DescribeAgain, st\<lparr>e_stage := M_collecting_purpose\<rparr>, [])
                  else if str_includes (toLowerCase u) ''recipient'' \<or> str_includes (toLowerCase u) ''to''
                  then (Returned AskNewRecipient, st\<lparr>e_stage := M_collecting_recipient\<rparr>, [])
                  else if str_includes (toLowerCase u) ''cancel'' then
                    (Returned Canceled, reset_email, [])
                  else (Returned EditOptions, st, []))
         | M_generating \<Rightarrow> (Returned StillWorking, st, [])
         | M_init \<Rightarrow> (Returned LostTrack, reset_email, [])
         | M_checking_context \<Rightarrow> (Returned LostTrack, reset_email, [])))"

text \<open>\<open>handleEmailIntent\<close>: the outer \<open>catch\<close> resets the state and returns the
  recovery message.\<close>

definition handleEmailIntent ::
  "mail_env \<Rightarrow> int \<Rightarrow> jsinput \<Rightarrow> (string \<times> string) list \<Rightarrow> email_state
     \<Rightarrow> mail_reply \<times> email_state \<times> send_call list" where
  "handleEmailIntent env now userInput entities st =
     (case email_turn env now userInput entities st of
        (Returned reply, st', sends) \<Rightarrow> (reply, st', sends)
      | (Threw, st', sends) \<Rightarrow> (MailRecovery, reset_email, sends))"

text \<open>The three components of a turn's result.\<close>

definition turn_reply :: "'r \<times> 's \<times> 'c list \<Rightarrow> 'r" where
  "turn_reply r = fst r"

definition turn_state :: "'r \<times> 's \<times> 'c list \<Rightarrow> 's" where
  "turn_state r = fst (snd r)"

definition turn_calls :: "'r \<times> 's \<times> 'c list \<Rightarrow> 'c list" where
  "turn_calls r = snd (snd r)"

text \<open>An input that says no and does not say yes; an input that says yes.\<close>

definition says_no :: "string \<Rightarrow> bool" where
  "says_no u = (str_includes (toLowerCase u) ''no'' \<and> \<not> str_includes (toLowerCase u) ''yes'')"

definition says_yes :: "string \<Rightarrow> bool" where
  "says_yes u = str_includes (toLowerCase u) ''yes''"

text \<open>An environment in which every external service is down, and a draft that waits
  for its confirmation since time 0.\<close>

definition offline_mail_env :: mail_env where
  "offline_mail_env =
     \<lparr>matchEmail = (\<lambda>u. None),
      analyzeContextCompleteness = (\<lambda>to purpose. \<lparr>hasAllContext = True, missingInfo = None\<rparr>),
      analyzeEmailContext = (\<lambda>to. Inl (Error ''offline'')),
      generateHumanizedEmail = (\<lambda>to purpose style. Inl (Error ''offline'')),
      gmailSend = (\<lambda>to subject body. Inl (Error ''offline''))\<rparr>"

definition draft_waiting :: email_state where
  "draft_waiting =
     \<lparr>e_active = True, e_stage = M_confirming,
      e_data = \<lparr>e_to = Some ''bob@example.com'', e_subject = ''Budget'', e_body = ''Hello Bob'',
                e_purpose = ''the budget'', e_styleAnalysis = None, e_contextAnalysis = None,
                e_startTime = Some 0\<rparr>\<rparr>"

section \<open>Scheduling flow (schedulingFlow: \<open>src/unnamed/part_004\<close>)\<close>

datatype sched_stage =
    S_init | S_parsing_request | S_collecting_date | S_suggesting_time | S_confirming

text \<open>
  A \<open>Date\<close> object is an instant or \<open>Invalid Date\<close>. The fields \<open>startTime\<close> and
  \<open>endTime\<close> of the state hold \<open>null\<close>, the ISO string of an instant, or the clock
  text that the merge with the parse result copies from \<open>parsed.endTime\<close>. A suggestion
  is a slot with its display text.
\<close>

datatype jsdate = InvalidDate | DateAt int

text \<open>
  A \<open>Date\<close> holds an instant of at most 8.64e15 ms either side of the epoch: a setter
  that computes an instant beyond that leaves \<open>Invalid Date\<close> (\<open>TimeClip\<close>).
\<close>

definition timeClip :: "int \<Rightarrow> jsdate" where
  "timeClip t =
     (if - 8640000000000000 \<le> t \<and> t \<le> 8640000000000000 then DateAt t else InvalidDate)"

datatype timeval = ISO int | ClockText string

record time_slot = slot +
  displayText :: string

record sched_data =
  s_title :: "string option"
  s_description :: "string option"
  s_date :: "string option"
  s_time :: "string option"
  s_duration :: "jsnum option"
  s_attendees :: "string list"
  s_suggestedTimes :: "time_slot list"
  s_dateObj :: "jsdate option"
  s_startTime :: "timeval option"
  s_endTime :: "timeval option"
  s_startTimestamp :: int
  s_location :: "string option"

record sched_state =
  s_active :: bool
  s_stage :: sched_stage
  s_data :: sched_data

text \<open>The state a new flow starts from (\<open>location\<close> is not a key yet: \<open>None\<close>).\<close>

definition fresh_schedule :: "int \<Rightarrow> sched_state" where
  "fresh_schedule now =
     \<lparr>s_active = True, s_stage = S_parsing_request,
      s_data = \<lparr>s_title = Some [], s_description = Some [], s_date = Some [], s_time = Some [],
                s_duration = Some (Num 60), s_attendees = [], s_suggestedTimes = [],
                s_dateObj = None, s_startTime = None, s_endTime = None,
                s_startTimestamp = now, s_location = None\<rparr>\<rparr>"

text \<open>The module's initial state: the same data, inactive, stage \<open>init\<close>.\<close>

definition initial_schedule :: "int \<Rightarrow> sched_state" where
  "initial_schedule loaded = (fresh_schedule loaded)\<lparr>s_active := False, s_stage := S_init\<rparr>"

text \<open>
  \<open>scheduleState.data = { ...scheduleState.data, ...parsed }\<close>: a key the parse
  result has takes its value, \<open>null\<close> included; a key it does not have keeps the value
  of the state, so a decoded answer without \<open>duration\<close> leaves the 60 of a new flow.
\<close>

definition has_key :: "parsed \<Rightarrow> parsed_key \<Rightarrow> bool" where
  "has_key p k = (k \<notin> set (p_absent p))"

definition merge_parsed :: "sched_data \<Rightarrow> parsed \<Rightarrow> sched_data" where
  "merge_parsed d p =
     d\<lparr>s_title := (if has_key p K_title then p_title p else s_title d),
       s_description := (if has_key p K_description then p_description p else s_description d),
       s_date := (if has_key p K_date then p_date p else s_date d),
       s_time := (if has_key p K_time then p_time p else s_time d),
       s_duration := (if has_key p K_duration then p_duration p else s_duration d),
       s_attendees := (if has_key p K_attendees then p_attendees p else s_attendees d),
       s_endTime := (if has_key p K_endTime then map_option ClockText (p_endTime p)
                     else s_endTime d),
       s_location := (if has_key p K_location then p_location p else s_location d)\<rparr>"

text \<open>
  The messages of the flow:
  \<^item> \<open>ProvideDetails\<close>: ``Please provide details for what you'd like to schedule.''
  \<^item> \<open>Suggestions slots\<close>: ``Based on your event purpose and existing calendar patterns,
    here are some optimal time slot suggestions: ... Select a slot by entering its number''
  \<^item> \<open>NoSlotsFound\<close>: ``No available time slots found for the selected day.''
  \<^item> \<open>ConfirmLiteral title date time duration\<close>: ``I'll schedule "title" on date at time
    for duration minutes. Does this look correct? (yes/no)''
  \<^item> \<open>AskDate title\<close>: ``What date would you like to schedule "title" for?''
  \<^item> \<open>SchedTimedOut\<close>: ``The scheduling session timed out. Let's start over.''
  \<^item> \<open>DateNotUnderstood\<close>: ``I couldn't understand the date. Please provide a valid date.''
  \<^item> \<open>ConfirmSelected title text\<close>: ``I'll schedule "title" for text. Does this look
    correct? (yes/no)''
  \<^item> \<open>SelectValid\<close>: ``Please select a valid option.''
  \<^item> \<open>SelectValidOrTime\<close>: ``Please select a valid option or provide a specific time.''
  \<^item> \<open>Scheduled title\<close>: ``Your event "title" has been scheduled successfully!''
  \<^item> \<open>StartOver\<close>: ``Okay, let's start over.''
  \<^item> \<open>RespondYesNo\<close>: ``Please respond with 'yes' or 'no'.''
  \<^item> \<open>NotSure\<close>: ``I'm not sure how to proceed. Can you clarify?''
  \<^item> \<open>SchedError\<close>: ``I encountered an error while trying to schedule. Please try
    again.''
\<close>

datatype sched_reply =
    ProvideDetails | Suggestions "time_slot list" | NoSlotsFound
  | ConfirmLiteral "string option" jsdate string "jsnum option" | AskDate "string option"
  | SchedTimedOut | DateNotUnderstood | ConfirmSelected "string option" string
  | SelectValid | SelectValidOrTime | Scheduled "string option" | StartOver | RespondYesNo
  | NotSure | SchedError

text \<open>The argument of \<open>createCalendarEvent\<close>.\<close>

record event_details =
  ev_title :: "string option"
  ev_description :: "string option"
  ev_startTime :: "timeval option"
  ev_endTime :: "timeval option"
  ev_attendees :: "string list"

text \<open>
  What the flow consumes from outside: the local offset, the environment of the
  analyzer's parser (\<open>eventAnalyzer.js\<close>) and that of the parsing utilities
  (\<open>part_001\<close>; the two parsers differ in their regular-expression fallback only, and
  the second is the one the enhanced handler of \<open>calendar.js\<close> calls),
  \<open>new Date(text)\<close> (an instant of the \<open>Date\<close> range or \<open>Invalid Date\<close>), and three
  services that catch their own errors and so always return: \<open>checkForConflicts\<close>, \<open>analyzeEventPatterns\<close>, \<open>getCalendarEvents\<close>;
  and the formatting of an instant as a local time of day.
\<close>

record sched_env =
  tzOffset :: int
  parsing :: parse_env
  parsingUtils :: parse_env
  newDate :: "string \<Rightarrow> jsdate"
  checkForConflicts :: "int \<Rightarrow> int \<Rightarrow> event list"
  analyzeEventPatterns :: "jsdate \<Rightarrow> jsnum option \<Rightarrow> string \<Rightarrow> time_slot list"
  getCalendarEvents :: "int \<Rightarrow> int \<Rightarrow> event list"
  toLocaleTimeString :: "int \<Rightarrow> string"

text \<open>
  \<open>findAvailableTimeSlots\<close> as the flow calls it, with a \<open>Date\<close> object and the
  state's duration: \<open>null\<close> counts as 0 in the product \<open>duration * 60 * 1000\<close>; with
  \<open>NaN\<close> every comparison of the function fails and no slot is pushed.
\<close>

definition findSlotsFor :: "sched_env \<Rightarrow> int \<Rightarrow> jsdate \<Rightarrow> jsnum option \<Rightarrow> slot list" where
  "findSlotsFor env now targetDate duration =
     (case duration of
        Some NaN \<Rightarrow> []
      | Some (Num n) \<Rightarrow>
          findAvailableTimeSlots (tzOffset env) now (getCalendarEvents env)
            (case targetDate of InvalidDate \<Rightarrow> None | DateAt t \<Rightarrow> Some t) n
      | None \<Rightarrow>
          findAvailableTimeSlots (tzOffset env) now (getCalendarEvents env)
            (case targetDate of InvalidDate \<Rightarrow> None | DateAt t \<Rightarrow> Some t) 0)"

definition suggestAvailableTimes :: "sched_env \<Rightarrow> int \<Rightarrow> sched_state \<Rightarrow> sched_reply \<times> sched_state" where
  "suggestAvailableTimes env now st =
     (let duration = s_duration (s_data st);
          targetDate = (if truthy (s_date (s_data st)) then newDate env (the (s_date (s_data st)))
                        else DateAt now);
          purpose = (if truthy (s_title (s_data st)) then the (s_title (s_data st))
                     else ''General meeting'');
          analysed = analyzeEventPatterns env targetDate duration purpose;
          suggestions =
            (if analysed = [] then
               map (\<lambda>sl. \<lparr>slot_start = slot_start sl, slot_end = slot_end sl,
                            displayText = toLocaleTimeString env (slot_start sl) @ '' - ''
                                          @ toLocaleTimeString env (slot_end sl)\<rparr>)
                   (findSlotsFor env now targetDate duration)
             else analysed);
          st1 = st\<lparr>s_data := (s_data st)\<lparr>s_suggestedTimes := suggestions\<rparr>\<rparr>
      in if suggestions \<noteq> [] then (Suggestions suggestions, st1) else (NoSlotsFound, st1))"

text \<open>
  The start and end of the literal time: \<open>setHours(hours, minutes, 0, 0)\<close> on a copy of
  \<open>dateObj\<close>, then \<open>setMinutes(getMinutes() + duration)\<close> on a copy of the start
  (\<open>null\<close> adds 0). An invalid date, a \<open>NaN\<close>, or an instant outside the \<open>Date\<close>
  range makes the result \<open>Invalid Date\<close>.
\<close>

definition literal_start :: "int \<Rightarrow> jsdate \<Rightarrow> jsnum \<times> jsnum \<Rightarrow> jsdate" where
  "literal_start off dateObj hm =
     (case (dateObj, hm) of
        (DateAt t, Num h, Num m) \<Rightarrow> timeClip (setHours off t h m)
      | _ \<Rightarrow> InvalidDate)"

definition literal_end :: "jsdate \<Rightarrow> jsnum option \<Rightarrow> jsdate" where
  "literal_end startTime duration =
     (case (startTime, duration) of
        (DateAt s, None) \<Rightarrow> timeClip s
      | (DateAt s, Some (Num n)) \<Rightarrow> timeClip (s + n * MINUTE)
      | _ \<Rightarrow> InvalidDate)"

text \<open>\<open>/^[1-5]$/.test(text)\<close> and \<open>parseInt(text) - 1\<close> on such a text.\<close>

definition is_choice :: "string \<Rightarrow> bool" where
  "is_choice t = (length t = 1 \<and> 49 \<le> (of_char (hd t) :: nat) \<and> (of_char (hd t) :: nat) \<le> 53)"

definition choice_index :: "string \<Rightarrow> nat" where
  "choice_index t = of_char (hd t) - 49"

definition sched_timed_out :: "int \<Rightarrow> sched_state \<Rightarrow> bool" where
  "sched_timed_out now st = (10 * 60 * 1000 < now - s_startTimestamp (s_data st))"

text \<open>
  The body of the \<open>try\<close> of \<open>handleScheduleIntent(userInput)\<close>: a message or a throw,
  the state it leaves, and the \<open>createCalendarEvent\<close> calls it made. The state is
  updated in place, so a throw keeps the updates made before it. The one expression that
  can throw is \<open>toISOString()\<close> on an invalid date (a \<open>RangeError\<close>).
\<close>

definition schedule_turn ::
  "sched_env \<Rightarrow> int \<Rightarrow> jsinput \<Rightarrow> sched_state
     \<Rightarrow> sched_reply outcome \<times> sched_state \<times> event_details list" where
  "schedule_turn env now userInput st =
     (case userInput of
        NotString \<Rightarrow> (Returned ProvideDetails, st, [])
      | Str u \<Rightarrow>
        if u = [] then (Returned ProvideDetails, st, [])
        else if \<not> s_active st then
          (let parsed = parseDateAndTime (parsing env) (Str u);
               st1 = (fresh_schedule now)\<lparr>s_data := merge_parsed (s_data (fresh_schedule now)) parsed\<rparr>
           in if truthy (p_date parsed) then
                (let dateObj = newDate env (the (p_date parsed));
                     st2 = st1\<lparr>s_data := (s_data st1)\<lparr>s_dateObj := Some dateObj\<rparr>\<rparr>
                 in if truthy (p_time parsed) then
                      (let startTime = literal_start (tzOffset env) dateObj (hours_minutes (the (p_time parsed)));
                           endTime = literal_end startTime (s_duration (s_data st2))
                       in case startTime of
                            InvalidDate \<Rightarrow> (Threw, st2, [])
                          | DateAt s \<Rightarrow>
                              (let st3 = st2\<lparr>s_data := (s_data st2)\<lparr>s_startTime := Some (ISO s)\<rparr>\<rparr>
                               in case endTime of
                                    InvalidDate \<Rightarrow> (Threw, st3, [])
                                  | DateAt e \<Rightarrow>
                                      (let st4 = st3\<lparr>s_data := (s_data st3)\<lparr>s_endTime := Some (ISO e)\<rparr>\<rparr>
                                       in if s < now \<or> checkForConflicts env s e \<noteq> [] then
                                            (case suggestAvailableTimes env now (st4\<lparr>s_stage := S_suggesting_time\<rparr>) of
                                               (reply, st5) \<Rightarrow> (Returned reply, st5, []))
                                          else
                                            (Returned (ConfirmLiteral (s_title (s_data st4)) dateObj
                                                         (the (p_time parsed)) (s_duration (s_data st4))),
                                             st4\<lparr>s_stage := S_confirming\<rparr>, []))))
                    else
                      (case suggestAvailableTimes env now (st2\<lparr>s_stage := S_suggesting_time\<rparr>) of
                         (reply, st3) \<Rightarrow> (Returned reply, st3, [])))
              else (Returned (AskDate (s_title (s_data st1))), st1\<lparr>s_stage := S_collecting_date\<rparr>, []))
        else if sched_timed_out now st then (Returned SchedTimedOut, st\<lparr>s_active := False\<rparr>, [])
        else
          (case s_stage st of
             S_collecting_date \<Rightarrow>
               (let dateResponse = parseDateAndTime (parsing env) (Str u)
                in if truthy (p_date dateResponse) then
                     (case suggestAvailableTimes env now
                             (st\<lparr>s_data := (s_data st)\<lparr>s_date := p_date dateResponse,
                                    s_dateObj := Some (newDate env (the (p_date dateResponse)))\<rparr>,
                                 s_stage := S_suggesting_time\<rparr>) of
                        (reply, st1) \<Rightarrow> (Returned reply, st1, []))
                   else (Returned DateNotUnderstood, st, []))
           | S_suggesting_time \<Rightarrow>
               if is_choice (trim u) then
                 (let selectedIndex = choice_index (trim u) in
                  if selectedIndex < length (s_suggestedTimes (s_data st)) then
                    (let selected = s_suggestedTimes (s_data st) ! selectedIndex in
                     (Returned (ConfirmSelected (s_title (s_data st)) (displayText selected)),
                      st\<lparr>s_data := (s_data st)\<lparr>s_startTime := Some (ISO (slot_start selected)),
                                                 s_endTime := Some (ISO (slot_end selected))\<rparr>,
                         s_stage := S_confirming\<rparr>, []))
                  else (Returned SelectValid, st, []))
               else (Returned SelectValidOrTime, st, [])
           | S_confirming \<Rightarrow>
               if toLowerCase u = ''yes'' then
                 (Returned (Scheduled (s_title (s_data st))), st\<lparr>s_active := False\<rparr>,
                  [\<lparr>ev_title = s_title (s_data st), ev_description = s_description (s_data st),
                    ev_startTime = s_startTime (s_data st), ev_endTime = s_endTime (s_data st),
                    ev_attendees = s_attendees (s_data st)\<rparr>])
               else if toLowerCase u = ''no'' then (Returned StartOver, st\<lparr>s_active := False\<rparr>, [])
               else (Returned RespondYesNo, st, [])
           | S_init \<Rightarrow> (Returned NotSure, st, [])
           | S_parsing_request \<Rightarrow> (Returned NotSure, st, [])))"

text \<open>\<open>handleScheduleIntent\<close>: the \<open>catch\<close> returns the error message and assigns
  nothing.\<close>

definition handleScheduleIntent ::
  "sched_env \<Rightarrow> int \<Rightarrow> jsinput \<Rightarrow> sched_state
     \<Rightarrow> sched_reply \<times> sched_state \<times> event_details list" where
  "handleScheduleIntent env now userInput st =
     (case schedule_turn env now userInput st of
        (Returned reply, st', created) \<Rightarrow> (reply, st', created)
      | (Threw, st', created) \<Rightarrow> (SchedError, st', created))"

text \<open>
  An environment whose completion service is down, so that parsing falls back to the
  regular expressions; the fallback is given for one request: the date pattern
  \<open>\d{4}-\d{2}-\d{2}\<close> matches \<open>2025-13-45\<close>, which is copied as it is, the time
  pattern matches \<open>10:00\<close>, and the title is the text before `` on''. \<open>new Date\<close> of
  that date text is \<open>Invalid Date\<close>, since there is no month 13.
\<close>

definition offline_parse_env :: parse_env where
  "offline_parse_env =
     \<lparr>generateParse = (\<lambda>u. Inl (Error ''offline'')),
      jsonObject = (\<lambda>r. None),
      regexParse = (\<lambda>u.
        if u = ''Schedule sync on 2025-13-45 at 10:00''
        then default_parsed\<lparr>p_date := Some ''2025-13-45'', p_time := Some ''10:00'',
               p_title := Some ''Schedule sync''\<rparr>
        else default_parsed\<lparr>p_title := Some u\<rparr>)\<rparr>"

definition offline_sched_env :: sched_env where
  "offline_sched_env =
     \<lparr>tzOffset = 0, parsing = offline_parse_env, parsingUtils = offline_parse_env,
      newDate = (\<lambda>text. InvalidDate),
      checkForConflicts = (\<lambda>s e. []),
      analyzeEventPatterns = (\<lambda>d n p. []),
      getCalendarEvents = (\<lambda>a b. []),
      toLocaleTimeString = (\<lambda>t. [])\<rparr>"

text \<open>Three suggestions on offer, the flow waiting for a choice since time 0.\<close>

definition three_offers :: sched_state where
  "three_offers =
     (fresh_schedule 0)
       \<lparr>s_stage := S_suggesting_time,
        s_data := (s_data (fresh_schedule 0))
          \<lparr>s_title := Some ''Standup'',
           s_suggestedTimes :=
             [\<lparr>slot_start = 32400000, slot_end = 36000000, displayText = ''9:00 AM - 10:00 AM''\<rparr>,
              \<lparr>slot_start = 34200000, slot_end = 37800000, displayText = ''9:30 AM - 10:30 AM''\<rparr>,
              \<lparr>slot_start = 36000000, slot_end = 39600000, displayText = ''10:00 AM - 11:00 AM''\<rparr>]\<rparr>\<rparr>"

text \<open>
  An environment for the request ``Schedule a meeting called Standup tomorrow at 9am''
  made on 2025-04-01 at 12:00 UTC (instant 1743508800000): the completion service
  answers with the JSON object decoded below, and the calendar is empty. Midnight of
  2025-04-02 UTC is the instant 1743552000000.
\<close>

definition standup_parse_env :: parse_env where
  "standup_parse_env =
     \<lparr>generateParse = (\<lambda>u. Inr ''{...}''),
      jsonObject = (\<lambda>r. Some (default_parsed\<lparr>p_date := Some ''2025-04-02'',
                                  p_time := Some ''09:00'', p_title := Some ''Standup''\<rparr>)),
      regexParse = (\<lambda>u. default_parsed)\<rparr>"

definition standup_sched_env :: sched_env where
  "standup_sched_env =
     offline_sched_env
       \<lparr>parsing := standup_parse_env,
        newDate := (\<lambda>text. if text = ''2025-04-02'' then DateAt 1743552000000 else InvalidDate)\<rparr>"

section \<open>Dialogue orchestrator (chat service: \<open>src/services/auth/googleAuth.js\<close> from line 324,
  \<open>src/services/calendar.js\<close>)\<close>

subsection \<open>Intent classification and entity extraction\<close>

datatype intent = research_intent | calendar_intent | email_intent | exit_intent | chat_intent

text \<open>
  Entities are an object with string fields: an association list, \<open>[]\<close> for \<open>{}\<close>.
  What the extractor consumes from outside: the completion service's answer to the prompt
  built for an intent from the text (or the exception it raised); the decoding of the
  first \<open>{...}\<close> span of an answer; the capture groups of the first match of each
  regular expression of the source; and the two ISO date strings of the calendar fallback.
\<close>

datatype json_result = NoMatch | ParseFails | Parsed "(string \<times> string) list"

datatype pattern =
    P_called           \<comment> \<open>\<open>/called\s+["']?(.+?)["']?/i\<close>\<close>
  | P_to_address       \<comment> \<open>\<open>/to\s+([^\s]+@[^\s]+)/\<close>\<close>
  | P_subject          \<comment> \<open>\<open>/subject\s+["']?(.+?)["']?(?=\s+and|$)/i\<close>\<close>
  | P_body             \<comment> \<open>\<open>/body\s+["']?(.+?)["']?$/i\<close>\<close>
  | P_to_word          \<comment> \<open>\<open>/to\s+([^\s]+)/\<close>\<close>
  | P_schedule_parts   \<comment> \<open>\<open>/schedule.*?called\s+["']?(.+?)["']?.*?(tomorrow|\d{4}-\d{2}-\d{2}).*?(\d{1,2}\s*(?:AM|PM))/i\<close>\<close>
  | P_after_research   \<comment> \<open>\<open>text.split('research')[1]\<close>, as one group\<close>

record extract_env =
  generateContent :: "intent \<Rightarrow> string \<Rightarrow> error + string"
  jsonEntities :: "string \<Rightarrow> json_result"
  groups :: "pattern \<Rightarrow> string \<Rightarrow> string list option"
  tomorrowAtTenISO :: string
  nowISO :: string

text \<open>Capture group \<open>i\<close> (from 1) of the first match, \<open>None\<close> without a match.\<close>

definition group :: "extract_env \<Rightarrow> pattern \<Rightarrow> nat \<Rightarrow> string \<Rightarrow> string option" where
  "group env p i text =
     (case groups env p text of
        None \<Rightarrow> None
      | Some gs \<Rightarrow> if 0 < i \<and> i \<le> length gs then Some (gs ! (i - 1)) else None)"

text \<open>\<open>classifyIntent(text)\<close>.\<close>

definition classifyIntent :: "(string \<Rightarrow> error + string) \<Rightarrow> string \<Rightarrow> intent" where
  "classifyIntent generateIntent text =
     (case generateIntent text of
        Inl err \<Rightarrow> chat_intent
      | Inr answer \<Rightarrow>
          let response = toLowerCase (trim answer) in
          if str_includes response ''research_intent'' then research_intent
          else if str_includes response ''calendar_intent'' then calendar_intent
          else if str_includes response ''email_intent'' then email_intent
          else if str_includes response ''exit_intent'' then exit_intent
          else if str_includes (toLowerCase text) ''research'' then research_intent
          else if str_includes (toLowerCase text) ''schedule'' then calendar_intent
          else if str_includes (toLowerCase text) ''email'' then email_intent
          else if str_includes (toLowerCase text) ''quit'' then exit_intent
          else chat_intent)"

text \<open>
  \<open>extractEntities(text, intentType)\<close>: the entities and the list of completion calls
  made, each named by the intent whose prompt it sent. The outer \<open>catch\<close> is entered
  when the completion call throws.
\<close>

definition extract_fallback :: "extract_env \<Rightarrow> string \<Rightarrow> intent \<Rightarrow> (string \<times> string) list" where
  "extract_fallback env text intentType =
     (case intentType of
        research_intent \<Rightarrow>
          [(''topic'', (case map_option trim (group env P_after_research 1 text) of
                          None \<Rightarrow> ''AI''
                        | Some t \<Rightarrow> if t = [] then ''AI'' else t))]
      | calendar_intent \<Rightarrow>
          [(''eventName'', (case group env P_schedule_parts 1 text of
                              None \<Rightarrow> ''Vibe Session'' | Some n \<Rightarrow> n)),
           (''dateTime'', (if group env P_schedule_parts 2 text = Some ''tomorrow''
                           then ''2025-03-30T14:00:00Z'' else ''2025-03-29T11:00:00Z''))]
      | email_intent \<Rightarrow>
          [(''to'', (case group env P_to_word 1 text of None \<Rightarrow> ''friend@example.com'' | Some t \<Rightarrow> t)),
           (''subject'', (case group env P_subject 1 text of None \<Rightarrow> ''AI Vibes'' | Some t \<Rightarrow> t)),
           (''body'', (case group env P_body 1 text of None \<Rightarrow> ''Hello from AI assistant'' | Some t \<Rightarrow> t))]
      | exit_intent \<Rightarrow> []
      | chat_intent \<Rightarrow> [])"

definition extractEntities ::
  "extract_env \<Rightarrow> email_state \<Rightarrow> string \<Rightarrow> intent \<Rightarrow> (string \<times> string) list \<times> intent list" where
  "extractEntities env emailState text intentType =
     (case intentType of
        research_intent \<Rightarrow>
          (case generateContent env research_intent text of
             Inl err \<Rightarrow> (extract_fallback env text intentType, [research_intent])
           | Inr answer \<Rightarrow>
               ([(''topic'', if trim answer = [] then ''AI'' else trim answer)], [research_intent]))
      | calendar_intent \<Rightarrow>
          (case generateContent env calendar_intent text of
             Inl err \<Rightarrow> (extract_fallback env text intentType, [calendar_intent])
           | Inr answer \<Rightarrow>
               (case jsonEntities env (trim answer) of
                  Parsed e \<Rightarrow> (e, [calendar_intent])
                | _ \<Rightarrow>
                    ([(''eventName'', (case group env P_called 1 text of None \<Rightarrow> ''Meeting'' | Some n \<Rightarrow> n)),
                      (''dateTime'', (if str_includes text ''tomorrow'' then tomorrowAtTenISO env
                                      else nowISO env))],
                     [calendar_intent])))
      | email_intent \<Rightarrow>
          if isInEmailFlow emailState then ([], [])
          else
            (case generateContent env email_intent text of
               Inl err \<Rightarrow> (extract_fallback env text intentType, [email_intent])
             | Inr answer \<Rightarrow>
                 (case jsonEntities env (trim answer) of
                    Parsed e \<Rightarrow> (e, [email_intent])
                  | NoMatch \<Rightarrow>
                      ([(''to'', ''MISSING''), (''subject'', ''MISSING''), (''body'', ''MISSING'')],
                       [email_intent])
                  | ParseFails \<Rightarrow>
                      ([(''to'', (case group env P_to_address 1 text of None \<Rightarrow> ''MISSING'' | Some t \<Rightarrow> t)),
                        (''subject'', (case group env P_subject 1 text of None \<Rightarrow> ''MISSING'' | Some t \<Rightarrow> t)),
                        (''body'', (case group env P_body 1 text of None \<Rightarrow> ''MISSING'' | Some t \<Rightarrow> t))],
                       [email_intent])))
      | exit_intent \<Rightarrow> ([], [])
      | chat_intent \<Rightarrow> ([], []))"

text \<open>A mail flow that is collecting the purpose, and an extractor whose completion
  service would answer with a recipient.\<close>

definition collecting_purpose_state :: email_state where
  "collecting_purpose_state =
     \<lparr>e_active = True, e_stage = M_collecting_purpose,
      e_data = \<lparr>e_to = Some ''alice@example.com'', e_subject = [], e_body = [], e_purpose = [],
                e_styleAnalysis = None, e_contextAnalysis = None, e_startTime = Some 0\<rparr>\<rparr>"

definition eager_extract_env :: extract_env where
  "eager_extract_env =
     \<lparr>generateContent = (\<lambda>i text. Inr ''{...}''),
      jsonEntities = (\<lambda>answer. Parsed [(''to'', ''carol@example.com''), (''subject'', ''MISSING''),
                                         (''body'', ''MISSING'')]),
      groups = (\<lambda>p text. None),
      tomorrowAtTenISO = ''2025-04-02T10:00:00.000Z'',
      nowISO = ''2025-04-01T12:00:00.000Z''\<rparr>"

subsection \<open>The enhanced schedule handler (\<open>calendar.js\<close>)\<close>

text \<open>
  \<open>calendarService.handleScheduleIntent\<close> is \<open>enhancedScheduleHandler\<close>: it returns
  either an object \<open>{message, suggestions, parsedInput, requiresChoice: true}\<close> or what
  the scheduling flow returns. \<open>targetDate.toISOString()\<close> throws on an invalid date;
  the \<open>catch\<close> falls back to the scheduling flow.
\<close>

datatype schedule_response =
    RequiresChoice "time_slot list" parsed
  | FlowReply sched_reply

definition enhancedScheduleHandler ::
  "sched_env \<Rightarrow> int \<Rightarrow> string \<Rightarrow> sched_state
     \<Rightarrow> schedule_response \<times> sched_state \<times> event_details list" where
  "enhancedScheduleHandler env now userInput st =
     (let parsed0 = parseDateAndTime (parsingUtils env) (Str userInput);
          parsedInput = (if truthy (p_title parsed0) then parsed0
                         else parsed0\<lparr>p_title := Some ''Planning Meeting'',
                                        p_absent := removeAll K_title (p_absent parsed0)\<rparr>);
          targetDate = (if truthy (p_date parsedInput) then newDate env (the (p_date parsedInput))
                        else DateAt now);
          flow = (case handleScheduleIntent env now (Str userInput) st of
                    (reply, st', created) \<Rightarrow> (FlowReply reply, st', created))
      in case targetDate of
           InvalidDate \<Rightarrow> flow
         | DateAt t \<Rightarrow>
             let suggestions =
                   analyzeEventPatterns env targetDate
                     (if truthy_num (p_duration parsedInput) then p_duration parsedInput
                      else Some (Num 60))
                     (the (p_title parsedInput))
             in if suggestions \<noteq> [] then (RequiresChoice suggestions parsedInput, st, [])
                else flow)"

subsection \<open>One turn: \<open>processInput\<close>\<close>

text \<open>
  What is returned to the caller, pushed on the in-memory history and written to the
  message store: a string, or one of the messages of a flow, or the \<open>message\<close> of a
  choice object, or the result object of \<open>confirmCalendarEvent\<close>. The system markers
  of the history are JSON texts the orchestrator itself writes; they are kept structured:
  a pending confirmation (\<open>pendingCalendarEvent\<close>, \<open>eventName\<close>) or a suggestion
  context (\<open>calendarSuggestions\<close> with the suggestions and the parsed input).
\<close>

datatype response =
    Text string
  | MailMessage mail_reply
  | ScheduleMessage sched_reply
  | ChoiceMessage "time_slot list" parsed
  | ResultObject string

datatype role = User | Assistant | System

datatype content =
    Said response
  | PendingMarker string "string option"
  | SuggestionMarker "time_slot list" parsed

type_synonym turn = "role \<times> content"

text \<open>A document of the message collection: session, role, content.\<close>

type_synonym message = "string \<times> role \<times> response"

text \<open>The process-wide state: the history window, the two stores, the two flows, and
  the mail sent and events created so far.\<close>

record orch_state =
  conversationHistory :: "turn list"
  messages :: "message list"
  chats :: "(string \<times> string \<times> string \<times> response) list"
  emailState :: email_state
  scheduleState :: sched_state
  sent :: "send_call list"
  created :: "event_details list"

record turn_env =
  generateIntent :: "string \<Rightarrow> error + string"
  extraction :: extract_env
  research :: "string option \<Rightarrow> string"
  scheduling :: sched_env
  mailing :: mail_env
  handleTimeSelection :: "string \<Rightarrow> time_slot list \<Rightarrow> parsed \<Rightarrow> string"
  confirmCalendarEvent :: "string \<Rightarrow> bool \<Rightarrow> string"
  sendMessage :: "turn list \<Rightarrow> string \<Rightarrow> error + string"

text \<open>
  The most recent marker of each kind in the history
  (\<open>filter(...)\<close>, then the last element, then \<open>JSON.parse\<close>), and the test
  \<open>msg.role === 'system' && msg.content.includes(pendingId)\<close> read on a pending marker's
  two strings. Decoding a marker the orchestrator wrote does not fail.
\<close>

definition is_suggestion :: "turn \<Rightarrow> bool" where
  "is_suggestion m = (case m of (System, SuggestionMarker suggestions parsedInput) \<Rightarrow> True | _ \<Rightarrow> False)"

fun last_pending :: "turn list \<Rightarrow> (string \<times> string option) option" where
  "last_pending [] = None"
| "last_pending (m # ms) =
     (case last_pending ms of
        Some found \<Rightarrow> Some found
      | None \<Rightarrow> (case m of (System, PendingMarker pendingId eventName) \<Rightarrow> Some (pendingId, eventName)
                         | _ \<Rightarrow> None))"

fun last_suggestion :: "turn list \<Rightarrow> (time_slot list \<times> parsed) option" where
  "last_suggestion [] = None"
| "last_suggestion (m # ms) =
     (case last_suggestion ms of
        Some found \<Rightarrow> Some found
      | None \<Rightarrow> (case m of (System, SuggestionMarker suggestions parsedInput) \<Rightarrow> Some (suggestions, parsedInput)
                         | _ \<Rightarrow> None))"

definition names_pending :: "string \<Rightarrow> turn \<Rightarrow> bool" where
  "names_pending pendingId m =
     (case m of
        (System, PendingMarker p eventName) \<Rightarrow>
          str_includes p pendingId \<or>
          (case eventName of None \<Rightarrow> False | Some n \<Rightarrow> str_includes n pendingId)
      | _ \<Rightarrow> False)"

definition confirm_words :: "string \<Rightarrow> bool" where
  "confirm_words u =
     (str_includes u ''yes'' \<or> str_includes u ''confirm'' \<or> str_includes u ''ok'' \<or>
      str_includes u ''sure'' \<or> str_includes u ''schedule it'')"

definition deny_words :: "string \<Rightarrow> bool" where
  "deny_words u =
     (str_includes u ''no'' \<or> str_includes u ''cancel'' \<or>
      str_includes u (''don'' @ [CHR 0x27] @ ''t'') \<or> str_includes u ''dont'' \<or>
      str_includes u ''nope'')"

text \<open>\<open>checkForPendingCalendarEvents(userInput)\<close>: the response (\<open>None\<close> for
  \<open>null\<close>) and the history afterwards.\<close>

definition checkForPendingCalendarEvents ::
  "turn_env \<Rightarrow> string \<Rightarrow> turn list \<Rightarrow> response option \<times> turn list" where
  "checkForPendingCalendarEvents env userInput history =
     (case last_pending history of
        None \<Rightarrow> (None, history)
      | Some (pendingId, eventName) \<Rightarrow>
          if confirm_words (toLowerCase userInput) then
            (Some (ResultObject (confirmCalendarEvent env pendingId True)),
             filter (\<lambda>m. \<not> names_pending pendingId m) history)
          else if deny_words (toLowerCase userInput) then
            (Some (ResultObject (confirmCalendarEvent env pendingId False)),
             filter (\<lambda>m. \<not> names_pending pendingId m) history)
          else (None, history))"

text \<open>\<open>conversationHistory.push(turn)\<close>, then \<open>shift()\<close> when more than 10 are
  kept.\<close>

definition push_window :: "turn \<Rightarrow> turn list \<Rightarrow> turn list" where
  "push_window m history =
     (if 10 < length (history @ [m]) then tl (history @ [m]) else history @ [m])"

text \<open>The tail of \<open>processInput\<close>, after the \<open>switch\<close>: the response is pushed on the
  history, stored as an assistant message, and saved with the conversation when a user
  id is given.\<close>

definition persist_response ::
  "string \<Rightarrow> string option \<Rightarrow> string \<Rightarrow> response \<Rightarrow> orch_state \<Rightarrow> response \<times> orch_state" where
  "persist_response sessionId userId userInput response st =
     (response,
      st\<lparr>conversationHistory := conversationHistory st @ [(Assistant, Said response)],
         messages := messages st @ [(sessionId, Assistant, response)],
         chats := (if truthy userId
                   then chats st @ [(sessionId, the userId, userInput, response)]
                   else chats st)\<rparr>)"

text \<open>
  \<open>processInput(userInput, sessionId, userId)\<close> for a string input and a store that
  accepts every write (a failing write makes \<open>processInput\<close> throw and return nothing).
  It returns the response and the state afterwards.
\<close>

definition processInput ::
  "turn_env \<Rightarrow> int \<Rightarrow> string \<Rightarrow> string \<Rightarrow> string option \<Rightarrow> orch_state
     \<Rightarrow> response \<times> orch_state" where
  "processInput env now userInput sessionId userId st0 =
     (let st1 = st0\<lparr>messages := messages st0 @ [(sessionId, User, Text userInput)]\<rparr>;
          st2 = st1\<lparr>conversationHistory :=
                      push_window (User, Said (Text userInput)) (conversationHistory st1)\<rparr>
      in case checkForPendingCalendarEvents env userInput (conversationHistory st2) of
           (Some calendarResponse, history) \<Rightarrow>
             (calendarResponse,
              st2\<lparr>conversationHistory := history @ [(Assistant, Said calendarResponse)]\<rparr>)
         | (None, history) \<Rightarrow>
             (let st3 = st2\<lparr>conversationHistory := history\<rparr> in
              case last_suggestion (conversationHistory st3) of
                Some (suggestions, parsedInput) \<Rightarrow>
                  (let response = Text (handleTimeSelection env userInput suggestions parsedInput)
                   in (response,
                       st3\<lparr>conversationHistory :=
                             filter (\<lambda>m. \<not> is_suggestion m) (conversationHistory st3)
                               @ [(Assistant, Said response)]\<rparr>))
              | None \<Rightarrow>
                  if isInEmailFlow (emailState st3) then
                    (case handleEmailIntent (mailing env) now (Str userInput) [] (emailState st3) of
                       (reply, mail, sends) \<Rightarrow>
                         (MailMessage reply,
                          st3\<lparr>conversationHistory :=
                                 conversationHistory st3 @ [(Assistant, Said (MailMessage reply))],
                              emailState := mail, sent := sent st3 @ sends\<rparr>))
                  else
                    (let intent = classifyIntent (generateIntent env) userInput;
                         entities = fst (extractEntities (extraction env) (emailState st3) userInput intent)
                     in case intent of
                          research_intent \<Rightarrow>
                            persist_response sessionId userId userInput
                              (Text (research env (map_of entities ''topic''))) st3
                        | calendar_intent \<Rightarrow>
                            (case enhancedScheduleHandler (scheduling env) now userInput (scheduleState st3) of
                               (RequiresChoice suggestions parsedInput, sched, events) \<Rightarrow>
                                 persist_response sessionId userId userInput
                                   (ChoiceMessage suggestions parsedInput)
                                   (st3\<lparr>conversationHistory :=
                                           conversationHistory st3
                                             @ [(System, SuggestionMarker suggestions parsedInput)],
                                        scheduleState := sched, created := created st3 @ events\<rparr>)
                             | (FlowReply reply, sched, events) \<Rightarrow>
                                 persist_response sessionId userId userInput (ScheduleMessage reply)
                                   (st3\<lparr>scheduleState := sched, created := created st3 @ events\<rparr>))
                        | email_intent \<Rightarrow>
                            (case handleEmailIntent (mailing env) now (Str userInput) entities (emailState st3) of
                               (reply, mail, sends) \<Rightarrow>
                                 persist_response sessionId userId userInput (MailMessage reply)
                                   (st3\<lparr>emailState := mail, sent := sent st3 @ sends\<rparr>))
                        | exit_intent \<Rightarrow>
                            persist_response sessionId userId userInput (Text ''Peace out!'') st3
                        | chat_intent \<Rightarrow>
                            (case sendMessage env (butlast (conversationHistory st3)) userInput of
                               Inr assistantReply \<Rightarrow>
                                 (Text assistantReply,
                                  st3\<lparr>conversationHistory :=
                                         conversationHistory st3 @ [(Assistant, Said (Text assistantReply))]\<rparr>)
                             | Inl (Error message) \<Rightarrow>
                                 persist_response sessionId userId userInput
                                   (Text (''AI: Couldn'' @ [CHR 0x27] @ ''t process that: '' @ message)) st3))))"

text \<open>The response of a turn is persisted: the message store ends with the user's
  message followed by the assistant's response.\<close>

definition persisted :: "string \<Rightarrow> string \<Rightarrow> response \<Rightarrow> orch_state \<Rightarrow> orch_state \<Rightarrow> bool" where
  "persisted sessionId userInput response before after =
     (messages after =
        messages before @ [(sessionId, User, Text userInput), (sessionId, Assistant, response)])"

text \<open>A process with an empty history and empty stores in which a mail flow waits for
  the recipient, and an environment in which every service is down.\<close>

definition waiting_for_recipient :: orch_state where
  "waiting_for_recipient =
     \<lparr>conversationHistory = [], messages = [], chats = [],
      emailState = collecting_purpose_state\<lparr>e_stage := M_collecting_recipient\<rparr>,
      scheduleState = initial_schedule 0, sent = [], created = []\<rparr>"

definition offline_turn_env :: turn_env where
  "offline_turn_env =
     \<lparr>generateIntent = (\<lambda>text. Inl (Error ''offline'')),
      extraction = eager_extract_env\<lparr>generateContent := (\<lambda>i text. Inl (Error ''offline''))\<rparr>,
      research = (\<lambda>topic. ''offline''),
      scheduling = offline_sched_env,
      mailing = offline_mail_env,
      handleTimeSelection = (\<lambda>u suggestions parsedInput. ''offline''),
      confirmCalendarEvent = (\<lambda>pendingId yes. ''offline''),
      sendMessage = (\<lambda>history text. Inl (Error ''offline''))\<rparr>"

section \<open>TTL cache: proofs\<close>

lemma map_has_iff: "map_has c key \<longleftrightarrow> key \<in> fst ` set c"
  by (induction c) auto

lemma map_get_None_iff: "map_get c key = None \<longleftrightarrow> \<not> map_has c key"
  by (induction c) (auto split: if_splits)

lemma map_has_delete: "map_has (map_delete c key) k \<longleftrightarrow> (k \<noteq> key \<and> map_has c k)"
  by (induction c) (auto split: if_splits)

lemma map_get_delete: "map_get (map_delete c key) k = (if k = key then None else map_get c k)"
  by (induction c) (auto simp: map_get_None_iff map_has_delete)

lemma map_set_new: "\<not> map_has c key \<Longrightarrow> map_set c key new = c @ [(key, new)]"
  by (induction c) auto

lemma map_has_set: "map_has (map_set c key new) k \<longleftrightarrow> (k = key \<or> map_has c k)"
  by (induction c) (auto split: if_splits)

lemma keys_map_set: "fst ` set (map_set c key new) = insert key (fst ` set c)"
proof -
  have "\<And>k. k \<in> fst ` set (map_set c key new) \<longleftrightarrow> k \<in> insert key (fst ` set c)"
    using map_has_set[of c key new] unfolding map_has_iff by simp
  then show ?thesis by blast
qed

lemma keys_map_delete: "fst ` set (map_delete c key) = fst ` set c - {key}"
proof -
  have "\<And>k. k \<in> fst ` set (map_delete c key) \<longleftrightarrow> k \<in> fst ` set c - {key}"
    using map_has_delete[of c key] unfolding map_has_iff by auto
  then show ?thesis by blast
qed

lemma map_get_set: "map_get (map_set c key new) k = (if k = key then Some new else map_get c k)"
  by (induction c) auto

lemma distinct_map_set: "distinct (map fst c) \<Longrightarrow> distinct (map fst (map_set c key new))"
proof (induction c)
  case Nil
  then show ?case by simp
next
  case (Cons p rest)
  obtain k item where p: "p = (k, item)" by (cases p)
  with Cons show ?case by (auto simp: keys_map_set)
qed

lemma distinct_map_delete: "distinct (map fst c) \<Longrightarrow> distinct (map fst (map_delete c key))"
proof (induction c)
  case Nil
  then show ?case by simp
next
  case (Cons p rest)
  obtain k item where p: "p = (k, item)" by (cases p)
  with Cons show ?case by (simp add: keys_map_delete)
qed

lemma length_map_delete:
  "distinct (map fst c) \<Longrightarrow> map_has c key \<Longrightarrow> Suc (length (map_delete c key)) = length c"
proof (induction c)
  case Nil
  then show ?case by simp
next
  case (Cons p rest)
  obtain k item where p: "p = (k, item)" by (cases p)
  show ?case
  proof (cases "k = key")
    case True
    with Cons.prems p have "\<not> map_has rest key" by (simp add: map_has_iff)
    then have "map_delete rest key = rest" by (induction rest) auto
    with True p show ?thesis by simp
  next
    case False
    with Cons p show ?thesis by simp
  qed
qed

lemma map_get_in: "map_get c k = Some item \<Longrightarrow> (k, item) \<in> set c"
  by (induction c) (auto split: if_splits)

lemma in_map_get: "distinct (map fst c) \<Longrightarrow> (k, item) \<in> set c \<Longrightarrow> map_get c k = Some item"
  by (induction c) (auto simp: rev_image_eqI)

lemma oldest_scan_Some:
  "\<exists>k t. oldest_scan c (Some k0, Some t0) = (Some k, Some t) \<and> t \<le> t0 \<and>
         (\<forall>p \<in> set c. t \<le> timestamp (snd p)) \<and>
         ((k = k0 \<and> t = t0) \<or> (\<exists>item. (k, item) \<in> set c \<and> timestamp item = t))"
proof (induction c arbitrary: k0 t0)
  case Nil
  then show ?case by simp
next
  case (Cons p rest)
  obtain k1 it1 where p: "p = (k1, it1)" by (cases p)
  show ?case
  proof (cases "timestamp it1 < t0")
    case True
    from Cons.IH[of k1 "timestamp it1"] obtain k t where
      h: "oldest_scan rest (Some k1, Some (timestamp it1)) = (Some k, Some t)"
         "t \<le> timestamp it1" "\<forall>p \<in> set rest. t \<le> timestamp (snd p)"
         "(k = k1 \<and> t = timestamp it1) \<or> (\<exists>item. (k, item) \<in> set rest \<and> timestamp item = t)"
      by blast
    with True p show ?thesis by auto
  next
    case False
    from Cons.IH[of k0 t0] obtain k t where
      h: "oldest_scan rest (Some k0, Some t0) = (Some k, Some t)"
         "t \<le> t0" "\<forall>p \<in> set rest. t \<le> timestamp (snd p)"
         "(k = k0 \<and> t = t0) \<or> (\<exists>item. (k, item) \<in> set rest \<and> timestamp item = t)"
      by blast
    with False p show ?thesis by auto
  qed
qed

lemma getOldestKey_min:
  assumes "c \<noteq> []"
  shows "\<exists>k item. getOldestKey c = Some k \<and> (k, item) \<in> set c \<and>
           (\<forall>p \<in> set c. timestamp item \<le> timestamp (snd p))"
proof -
  from assms obtain k1 it1 rest where c: "c = (k1, it1) # rest"
    by (cases c) auto
  from oldest_scan_Some[of rest k1 "timestamp it1"] obtain k t where
    h: "oldest_scan rest (Some k1, Some (timestamp it1)) = (Some k, Some t)"
       "t \<le> timestamp it1" "\<forall>p \<in> set rest. t \<le> timestamp (snd p)"
       "(k = k1 \<and> t = timestamp it1) \<or> (\<exists>item. (k, item) \<in> set rest \<and> timestamp item = t)"
    by blast
  have g: "getOldestKey c = Some k" using c h(1) by (simp add: getOldestKey_def)
  from h(4) obtain item where "(k, item) \<in> set c" "timestamp item = t"
    using c by auto
  with g h(2,3) c show ?thesis by auto
qed

lemma filter_eq_singleton: "distinct xs \<Longrightarrow> x \<in> set xs \<Longrightarrow> filter (\<lambda>y. y = x) xs = [x]"
  by (induction xs) (auto simp: filter_empty_conv)

lemma evicted_delete:
  assumes "distinct (map fst c)" "map_has c k" "\<not> map_has c key"
  shows "evicted c (map_set (map_delete c k) key new) = [k]"
proof -
  have "\<And>k'. k' \<in> set (map fst c) \<Longrightarrow>
      (\<not> map_has (map_set (map_delete c k) key new) k') = (k' = k)"
    using assms(3) by (simp add: map_has_set map_has_delete) (auto simp: map_has_iff)
  then have "evicted c (map_set (map_delete c k) key new) = filter (\<lambda>k'. k' = k) (map fst c)"
    unfolding evicted_def by (intro filter_cong) auto
  also have "\<dots> = [k]"
    using assms(1,2) by (simp add: filter_eq_singleton map_has_iff)
  finally show ?thesis .
qed

lemma evicted_none:
  "evicted c (map_set c key new) = []"
  by (simp add: evicted_def map_has_set filter_empty_conv) (simp add: map_has_iff)


text \<open>Every operation of the module keeps the cache well formed.\<close>

lemma cache_wf_delete: "cache_wf c \<Longrightarrow> cache_wf (map_delete c key)"
  by (auto simp: cache_wf_def distinct_map_delete keys_map_delete)

lemma cache_wf_set: "cache_wf c \<Longrightarrow> key \<noteq> [] \<Longrightarrow> cache_wf (map_set c key new)"
  by (auto simp: cache_wf_def distinct_map_set keys_map_set)

lemma cache_wf_empty: "cache_wf []"
  by (simp add: cache_wf_def)

lemma cache_wf_cache_set: "cache_wf c \<Longrightarrow> cache_wf (snd (cache_set opts now1 now2 key v ttl c))"
  by (simp add: cache_set_def Let_def cache_wf_delete cache_wf_set split: option.splits)

lemma cache_wf_cache_get: "cache_wf c \<Longrightarrow> cache_wf (snd (cache_get now key c))"
  by (simp add: cache_get_def cache_wf_delete split: option.splits)

lemma cache_wf_cache_has: "cache_wf c \<Longrightarrow> cache_wf (snd (cache_has now key c))"
  by (simp add: cache_has_def cache_wf_delete split: option.splits)

lemma cache_wf_cache_remove: "cache_wf c \<Longrightarrow> cache_wf (snd (cache_remove key c))"
  by (simp add: cache_remove_def cache_wf_delete)

lemma cache_wf_cleanup: "cache_wf c \<Longrightarrow> cache_wf (snd (cleanup now c))"
  by (auto simp: cleanup_def cache_wf_def distinct_map_filter)

text \<open>
  Claim C6. For every entry of the cache, once the current time is strictly greater than
  the entry's \<open>expires\<close> timestamp, \<open>get(key)\<close> returns \<open>null\<close> and \<open>has(key)\<close>
  returns \<open>false\<close>, and each of them deletes the entry on that access; no sweep
  (\<open>cleanup\<close>) is involved.
\<close>

theorem cache_expired_entry_absent:
  assumes wf: "cache_wf c" and ent: "map_get c key = Some item" and old: "expires item < now"
  shows "cache_get now key c = (None, map_delete c key) \<and>
         cache_has now key c = (False, map_delete c key) \<and>
         \<not> map_has (map_delete c key) key \<and>
         map_get (map_delete c key) key = None"
proof -
  from ent have has: "map_has c key"
    using map_get_None_iff[of c key] by simp
  then have "key \<in> fst ` set c" by (simp add: map_has_iff)
  with wf have ne: "key \<noteq> []" unfolding cache_wf_def by blast
  from ne has ent old have g: "cache_get now key c = (None, map_delete c key)"
    by (simp add: cache_get_def)
  from ne has ent old have h: "cache_has now key c = (False, map_delete c key)"
    by (simp add: cache_has_def)
  from g h show ?thesis by (simp add: map_has_delete map_get_delete)
qed

text \<open>Witness for C6: one entry that expired one millisecond ago.\<close>

theorem cache_expired_entry_absent_witness:
  "cache_wf [(''k'', \<lparr>item_value = (7::nat), expires = 100, timestamp = 40\<rparr>)] \<and>
   cache_get 101 ''k'' [(''k'', \<lparr>item_value = (7::nat), expires = 100, timestamp = 40\<rparr>)]
     = (None, []) \<and>
   cache_has 101 ''k'' [(''k'', \<lparr>item_value = (7::nat), expires = 100, timestamp = 40\<rparr>)]
     = (False, [])"
proof -
  have wf: "cache_wf [(''k'', \<lparr>item_value = (7::nat), expires = 100, timestamp = 40\<rparr>)]"
    by (simp add: cache_wf_def)
  have ent: "map_get [(''k'', \<lparr>item_value = (7::nat), expires = 100, timestamp = 40\<rparr>)] ''k''
      = Some \<lparr>item_value = (7::nat), expires = 100, timestamp = 40\<rparr>"
    by simp
  have old: "expires \<lparr>item_value = (7::nat), expires = 100, timestamp = 40\<rparr> < 101"
    by simp
  from cache_expired_entry_absent[OF wf ent old] wf show ?thesis by simp
qed

text \<open>The comparison is strict: at \<open>now = expires\<close> the entry is still served.\<close>

lemma cache_get_at_expiry_still_present:
  "key \<noteq> [] \<Longrightarrow> map_get c key = Some item \<Longrightarrow> expires item = now \<Longrightarrow>
   cache_get now key c = (Some (item_value item), c)"
  using map_get_None_iff[of c key] by (simp add: cache_get_def)

text \<open>
  Claim C7, as amended. When the cache is not empty and holds at least \<open>maxSize\<close>
  entries, and \<open>set\<close> is called with a non-empty key that is not present, exactly one
  entry is evicted before the insertion: its key is the only key that disappears, its
  creation timestamp is the smallest among the existing entries (so no entry with a larger
  timestamp is the one evicted), and the new entry is appended after the survivors.
\<close>

theorem cache_set_at_capacity_evicts_oldest:
  assumes wf: "cache_wf c" and ne: "c \<noteq> []" and full: "maxSize opts \<le> int (length c)"
      and key: "key \<noteq> []" and new: "\<not> map_has c key"
  shows "\<exists>k item. map_get c k = Some item \<and>
           (\<forall>p \<in> set c. timestamp item \<le> timestamp (snd p)) \<and>
           evicted c (snd (cache_set opts now1 now2 key v ttl c)) = [k] \<and>
           Suc (length (map_delete c k)) = length c \<and>
           cache_set opts now1 now2 key v ttl c =
             (True, map_delete c k @
                [(key, \<lparr>item_value = v,
                        expires = now1 + (case ttl of None \<Rightarrow> defaultTTL opts | Some t \<Rightarrow> t),
                        timestamp = now2\<rparr>)])"
proof -
  let ?new = "\<lparr>item_value = v,
      expires = now1 + (case ttl of None \<Rightarrow> defaultTTL opts | Some t \<Rightarrow> t),
      timestamp = now2\<rparr>"
  from getOldestKey_min[OF ne] obtain k item where
    old: "getOldestKey c = Some k" and mem: "(k, item) \<in> set c"
    and least: "\<forall>p \<in> set c. timestamp item \<le> timestamp (snd p)"
    by blast
  from wf have dist: "distinct (map fst c)" by (simp add: cache_wf_def)
  from mem have kin: "k \<in> fst ` set c" by (auto simp: rev_image_eqI)
  with wf have kne: "k \<noteq> []" unfolding cache_wf_def by blast
  from kin have khas: "map_has c k" by (simp add: map_has_iff)
  from dist mem have get: "map_get c k = Some item" by (rule in_map_get)
  have res: "cache_set opts now1 now2 key v ttl c = (True, map_set (map_delete c k) key ?new)"
    using key full new old kne by (simp add: cache_set_def)
  have nodel: "\<not> map_has (map_delete c k) key"
    using new by (simp add: map_has_delete)
  have app: "map_set (map_delete c k) key ?new = map_delete c k @ [(key, ?new)]"
    using nodel by (rule map_set_new)
  have ev: "evicted c (snd (cache_set opts now1 now2 key v ttl c)) = [k]"
    using res evicted_delete[OF dist khas new] by simp
  have len: "Suc (length (map_delete c k)) = length c"
    using dist khas by (rule length_map_delete)
  from get least ev len res app show ?thesis by auto
qed

text \<open>
  Claim C7 as stated fails: with \<open>maxSize = 0\<close> the empty cache holds at least
  \<open>maxSize\<close> entries and the key is new, yet \<open>getOldestKey\<close> returns \<open>null\<close>
  and nothing is evicted before the insertion.
\<close>

theorem cache_set_at_capacity_counterexample:
  "maxSize (DEFAULT_OPTIONS\<lparr>maxSize := 0\<rparr>) \<le> int (length ([] :: nat cache)) \<and>
   \<not> map_has ([] :: nat cache) ''a'' \<and>
   cache_set (DEFAULT_OPTIONS\<lparr>maxSize := 0\<rparr>) 5 5 ''a'' (1::nat) None []
     = (True, [(''a'', \<lparr>item_value = 1, expires = 60005, timestamp = 5\<rparr>)]) \<and>
   evicted ([] :: nat cache)
     (snd (cache_set (DEFAULT_OPTIONS\<lparr>maxSize := 0\<rparr>) 5 5 ''a'' (1::nat) None [])) = []"
  by (simp add: cache_set_def DEFAULT_OPTIONS_def getOldestKey_def evicted_def)

text \<open>The empty key is refused before the capacity check: nothing is evicted or inserted.\<close>

lemma cache_set_empty_key_evicts_nothing:
  "cache_set opts now1 now2 [] v ttl c = (False, c) \<and>
   evicted c (snd (cache_set opts now1 now2 [] v ttl c)) = []"
  by (simp add: cache_set_def evicted_def filter_empty_conv) (simp add: map_has_iff)

text \<open>Witness for C7: a full cache of two entries; the older one, \<open>b\<close>, is evicted.\<close>

theorem cache_set_at_capacity_witness:
  "cache_set (DEFAULT_OPTIONS\<lparr>maxSize := 2\<rparr>) 50 51 ''c'' (3::nat) (Some 10)
     [(''a'', \<lparr>item_value = 1, expires = 100, timestamp = 20\<rparr>),
      (''b'', \<lparr>item_value = 2, expires = 100, timestamp = 10\<rparr>)]
   = (True, [(''a'', \<lparr>item_value = 1, expires = 100, timestamp = 20\<rparr>),
             (''c'', \<lparr>item_value = 3, expires = 60, timestamp = 51\<rparr>)])"
proof -
  let ?c = "[(''a'', \<lparr>item_value = (1::nat), expires = 100, timestamp = 20\<rparr>),
      (''b'', \<lparr>item_value = 2, expires = 100, timestamp = 10\<rparr>)]"
  let ?o = "DEFAULT_OPTIONS\<lparr>maxSize := 2\<rparr>"
  have wf: "cache_wf ?c" by (simp add: cache_wf_def)
  have ne: "?c \<noteq> []" by simp
  have full: "maxSize ?o \<le> int (length ?c)" by simp
  have key: "''c'' \<noteq> []" by simp
  have new: "\<not> map_has ?c ''c''" by simp
  from cache_set_at_capacity_evicts_oldest[OF wf ne full key new, of 50 51 3 "Some 10"]
  obtain k item where
    g: "map_get ?c k = Some item" and
    least: "\<forall>p \<in> set ?c. timestamp item \<le> timestamp (snd p)" and
    res: "cache_set ?o 50 51 ''c'' (3::nat) (Some 10) ?c =
       (True, map_delete ?c k @ [(''c'', \<lparr>item_value = 3, expires = 50 + 10, timestamp = 51\<rparr>)])"
    by auto
  from g least have "k = ''b''" by (auto split: if_splits)
  with res show ?thesis by simp
qed

section \<open>Calendar analyzer: proofs\<close>

subsection \<open>Duration inference\<close>

lemma hours_minutes_examples:
  "hours_minutes ''14:00'' = (Num 14, Num 0)"
  "hours_minutes ''14:30'' = (Num 14, Num 30)"
  "hours_minutes ''23:30'' = (Num 23, Num 30)"
  "hours_minutes ''00:15'' = (Num 0, Num 15)"
  "hours_minutes ''09:50'' = (Num 9, Num 50)"
  "hours_minutes ''09:20'' = (Num 9, Num 20)"
  by (simp_all add: hours_minutes_def js_Number_def trim_def is_space_def decimal_def
        is_digit_def digit_val_def)

text \<open>
  Claim C9. When a start clock time and an end clock time are both present and no
  duration is, the inferred duration in minutes is the end minus the start, with 24 hours
  added when that difference is not positive: it is congruent to the difference modulo
  24 hours and lies in \<open>(0, 1440]\<close> (equal times give a full day). Start 14:00 with end
  14:30 yields 30, and start 23:30 with end 00:15 yields 45.
\<close>

theorem duration_inference:
  assumes st: "p_time p = Some st" "st \<noteq> []"
      and en: "p_endTime p = Some en" "en \<noteq> []"
      and nodur: "\<not> truthy_num (p_duration p)"
      and hs: "hours_minutes st = (Num sh, Num sm)"
      and he: "hours_minutes en = (Num eh, Num em)"
      and rs: "0 \<le> sh" "sh < 24" "0 \<le> sm" "sm < 60"
      and re: "0 \<le> eh" "eh < 24" "0 \<le> em" "em < 60"
  shows "(\<exists>d. p_duration (inferDuration p) = Some (Num d) \<and>
           d = (if (eh * 60 + em) - (sh * 60 + sm) \<le> 0
                then (eh * 60 + em) - (sh * 60 + sm) + 24 * 60
                else (eh * 60 + em) - (sh * 60 + sm)) \<and>
           d mod (24 * 60) = ((eh * 60 + em) - (sh * 60 + sm)) mod (24 * 60) \<and>
           0 < d \<and> d \<le> 24 * 60) \<and>
         p_duration (inferDuration (default_parsed\<lparr>p_time := Some ''14:00'',
            p_endTime := Some ''14:30'', p_duration := None\<rparr>)) = Some (Num 30) \<and>
         p_duration (inferDuration (default_parsed\<lparr>p_time := Some ''23:30'',
            p_endTime := Some ''00:15'', p_duration := None\<rparr>)) = Some (Num 45)"
proof -
  let ?diff = "(eh * 60 + em) - (sh * 60 + sm)"
  let ?d = "if ?diff \<le> 0 then ?diff + 24 * 60 else ?diff"
  have "p_duration (inferDuration p) = Some (Num ?d)"
    using st en nodur hs he
    by (simp add: inferDuration_def truthy_def durationMinutes_def)
  moreover have "?d mod (24 * 60) = ?diff mod (24 * 60)" by simp
  moreover have "0 < ?d" using rs re by auto
  moreover have "?d \<le> 24 * 60" using rs re by auto
  ultimately have general: "\<exists>d. p_duration (inferDuration p) = Some (Num d) \<and>
           d = ?d \<and> d mod (24 * 60) = ?diff mod (24 * 60) \<and> 0 < d \<and> d \<le> 24 * 60"
    by blast
  have ex1: "p_duration (inferDuration (default_parsed\<lparr>p_time := Some ''14:00'',
            p_endTime := Some ''14:30'', p_duration := None\<rparr>)) = Some (Num 30)"
    by (simp add: inferDuration_def default_parsed_def truthy_def truthy_num_def
          durationMinutes_def hours_minutes_examples)
  have ex2: "p_duration (inferDuration (default_parsed\<lparr>p_time := Some ''23:30'',
            p_endTime := Some ''00:15'', p_duration := None\<rparr>)) = Some (Num 45)"
    by (simp add: inferDuration_def default_parsed_def truthy_def truthy_num_def
          durationMinutes_def hours_minutes_examples)
  from general ex1 ex2 show ?thesis by blast
qed

text \<open>Witness for C9: 09:50 to 09:20 with a duration of 0 crosses midnight, 1410 minutes.\<close>

theorem duration_inference_witness:
  "p_duration (inferDuration (default_parsed\<lparr>p_time := Some ''09:50'',
      p_endTime := Some ''09:20'', p_duration := Some (Num 0)\<rparr>)) = Some (Num 1410)"
proof -
  let ?p = "default_parsed\<lparr>p_time := Some ''09:50'', p_endTime := Some ''09:20'',
      p_duration := Some (Num 0)\<rparr>"
  have "\<exists>d. p_duration (inferDuration ?p) = Some (Num d) \<and>
           d = (if (9 * 60 + 20) - (9 * 60 + 50) \<le> (0::int)
                then (9 * 60 + 20) - (9 * 60 + 50) + 24 * 60
                else (9 * 60 + 20) - (9 * 60 + 50))"
    using duration_inference[of ?p "''09:50''" "''09:20''" 9 50 9 20]
    by (simp add: truthy_num_def hours_minutes_examples)
  then show ?thesis by simp
qed

text \<open>A clock text that is not \<open>HH:MM\<close> makes the inferred duration \<open>NaN\<close>.\<close>

lemma duration_inference_NaN:
  "p_duration (inferDuration (default_parsed\<lparr>p_time := Some ''10:00'',
      p_endTime := Some ''late'', p_duration := None\<rparr>)) = Some NaN"
  by (simp add: inferDuration_def default_parsed_def truthy_def truthy_num_def
        durationMinutes_def hours_minutes_def js_Number_def trim_def is_space_def decimal_def
        is_digit_def digit_val_def)

subsection \<open>Free slots of a day\<close>
















text \<open>
  The same happens with a 60-minute duration when an event ends before it starts
  (10:30 to 09:10).
\<close>

lemma findAvailableTimeSlots_order_bad_event:
  "findAvailableTimeSlots 0 1743508800000 (\<lambda>a b. [Timed 1743589800000 1743585000000])
       (Some 1743552000000) 60 =
     [\<lparr>slot_start = 1743584400000, slot_end = 1743588000000\<rparr>,
      \<lparr>slot_start = 1743586200000, slot_end = 1743589800000\<rparr>,
      \<lparr>slot_start = 1743585000000, slot_end = 1743588600000\<rparr>,
      \<lparr>slot_start = 1743586800000, slot_end = 1743590400000\<rparr>,
      \<lparr>slot_start = 1743588600000, slot_end = 1743592200000\<rparr>]"
proof -
  have p: "slots_from 1743584400000 3600000 1743589800000 =
      [\<lparr>slot_start = 1743584400000, slot_end = 1743588000000\<rparr>,
       \<lparr>slot_start = 1743586200000, slot_end = 1743589800000\<rparr>]"
    by (simp add: slots_from.simps MINUTE_def)
  have t: "take 3 (slots_from 1743585000000 3600000 1743613200000) =
      [\<lparr>slot_start = 1743585000000, slot_end = 1743588600000\<rparr>,
       \<lparr>slot_start = 1743586800000, slot_end = 1743590400000\<rparr>,
       \<lparr>slot_start = 1743588600000, slot_end = 1743592200000\<rparr>]"
  proof -
    have 1: "slots_from 1743585000000 3600000 1743613200000 =
        \<lparr>slot_start = 1743585000000, slot_end = 1743588600000\<rparr> # slots_from 1743586800000 3600000 1743613200000"
      by (subst slots_from.simps) (simp add: MINUTE_def)
    have 2: "slots_from 1743586800000 3600000 1743613200000 =
        \<lparr>slot_start = 1743586800000, slot_end = 1743590400000\<rparr> # slots_from 1743588600000 3600000 1743613200000"
      by (subst slots_from.simps) (simp add: MINUTE_def)
    have 3: "slots_from 1743588600000 3600000 1743613200000 =
        \<lparr>slot_start = 1743588600000, slot_end = 1743592200000\<rparr> # slots_from 1743590400000 3600000 1743613200000"
      by (subst slots_from.simps) (simp add: MINUTE_def)
    show ?thesis by (simp only: 1 2 3) simp
  qed
  show ?thesis
    by (simp add: findAvailableTimeSlots_def Let_def setHours_def sameLocalDay_def
          DAY_def HOUR_def MINUTE_def p t)
qed

section \<open>Mail composition flow: proofs\<close>

text \<open>\<open>sendEmail\<close> is called in one place only: stage \<open>confirming\<close>, session not
  timed out, input containing ``yes''; and then exactly once.\<close>

lemma email_turn_calls:
  assumes "turn_calls (email_turn env now inp ents s) \<noteq> []"
  shows "e_active s \<and> \<not> mail_timed_out now s \<and> e_stage s = M_confirming \<and>
         (\<exists>u. inp = Str u \<and> says_yes u) \<and>
         email_turn env now inp ents s =
           (Returned (SendResult (sendEmail env (e_to (e_data s)) (e_subject (e_data s)) (e_body (e_data s)))),
            reset_email,
            [(e_to (e_data s), e_subject (e_data s), e_body (e_data s))])"
  using assms
  by (cases "e_stage s"; cases inp)
     (auto simp: email_turn_def turn_calls_def says_yes_def Let_def
           split: if_splits option.splits prod.splits)

lemma handleEmailIntent_calls:
  "turn_calls (handleEmailIntent env now inp ents s) = turn_calls (email_turn env now inp ents s)"
  by (cases "email_turn env now inp ents s" rule: prod_cases3)
     (auto simp: handleEmailIntent_def turn_calls_def split: outcome.splits)

lemma confirming_no:
  assumes "e_active st" "e_stage st = M_confirming" "says_no u"
  shows "handleEmailIntent env now (Str u) ents st =
           (if mail_timed_out now st then (MailTimedOut, reset_email, [])
            else (AskWhatToChange, st\<lparr>e_stage := M_editing\<rparr>, []))"
  using assms by (simp add: handleEmailIntent_def email_turn_def says_no_def)

lemma confirming_yes:
  assumes "e_active st" "e_stage st = M_confirming" "says_yes u" "\<not> mail_timed_out now st"
  shows "handleEmailIntent env now (Str u) ents st =
           (SendResult (sendEmail env (e_to (e_data st)) (e_subject (e_data st)) (e_body (e_data st))),
            reset_email,
            [(e_to (e_data st), e_subject (e_data st), e_body (e_data st))])"
  using assms by (simp add: handleEmailIntent_def email_turn_def says_yes_def)

text \<open>
  The outer \<open>catch\<close> of the mail handler: whatever the stage, a turn whose body throws
  returns the recovery message and leaves the flow inactive.
\<close>

lemma handleEmailIntent_thrown:
  assumes "fst (email_turn env now inp ents s) = Threw"
  shows "turn_reply (handleEmailIntent env now inp ents s) = MailRecovery \<and>
         turn_state (handleEmailIntent env now inp ents s) = reset_email \<and>
         \<not> e_active (turn_state (handleEmailIntent env now inp ents s))"
  using assms
  by (cases "email_turn env now inp ents s" rule: prod_cases3)
     (auto simp: handleEmailIntent_def turn_reply_def turn_state_def reset_email_def)

lemma email_turn_throws_iff:
  "fst (email_turn env now inp ents s) = Threw \<longleftrightarrow>
     (e_active s \<and> \<not> mail_timed_out now s \<and> inp = NotString \<and>
      e_stage s \<in> {M_collecting_recipient, M_collecting_purpose, M_collecting_context,
                    M_confirming, M_editing})"
  by (cases "e_stage s"; cases inp)
     (auto simp: email_turn_def Let_def split: if_splits option.splits prod.splits)


lemma says_examples:
  "says_no ''no''" "says_no ''No thanks''" "says_yes ''Yes please''" "\<not> says_yes ''no''"
  by code_simp+

text \<open>
  Claim C1, as amended. In the \<open>confirming\<close> stage an input whose lowercased text
  contains ``no'' and not ``yes'' never invokes \<open>sendEmail\<close>, and, when the 15-minute
  session timeout has not elapsed, moves the flow to the \<open>editing\<close> stage; a second such
  input, on the state the first one left, never invokes \<open>sendEmail\<close> either. A turn
  invokes \<open>sendEmail\<close> only when its input contains ``yes''; such an input, when the
  session has not timed out, makes exactly one call, with the draft's recipient, subject
  and body, and the flow is reset to inactive.
\<close>

theorem mail_confirming_send_only_on_yes:
  assumes act: "e_active st" and stg: "e_stage st = M_confirming"
      and no1: "says_no u1" and no2: "says_no u2"
  shows "turn_calls (handleEmailIntent env now1 (Str u1) ents1 st) = [] \<and>
         (\<not> mail_timed_out now1 st \<longrightarrow>
            turn_state (handleEmailIntent env now1 (Str u1) ents1 st) = st\<lparr>e_stage := M_editing\<rparr>) \<and>
         turn_calls (handleEmailIntent env now2 (Str u2) ents2
            (turn_state (handleEmailIntent env now1 (Str u1) ents1 st))) = [] \<and>
         (\<forall>now inp ents. turn_calls (handleEmailIntent env now inp ents st) \<noteq> [] \<longrightarrow>
            (\<exists>y. inp = Str y \<and> says_yes y)) \<and>
         (\<forall>now y ents. says_yes y \<and> \<not> mail_timed_out now st \<longrightarrow>
            turn_calls (handleEmailIntent env now (Str y) ents st) =
              [(e_to (e_data st), e_subject (e_data st), e_body (e_data st))] \<and>
            turn_state (handleEmailIntent env now (Str y) ents st) = reset_email \<and>
            \<not> e_active (turn_state (handleEmailIntent env now (Str y) ents st)))"
proof (intro conjI allI impI)
  have first: "handleEmailIntent env now1 (Str u1) ents1 st =
           (if mail_timed_out now1 st then (MailTimedOut, reset_email, [])
            else (AskWhatToChange, st\<lparr>e_stage := M_editing\<rparr>, []))"
    using act stg no1 by (rule confirming_no)
  show "turn_calls (handleEmailIntent env now1 (Str u1) ents1 st) = []"
    by (simp add: first turn_calls_def)
  show "turn_state (handleEmailIntent env now1 (Str u1) ents1 st) = st\<lparr>e_stage := M_editing\<rparr>"
    if "\<not> mail_timed_out now1 st"
    using that by (simp add: first turn_state_def)
  show "turn_calls (handleEmailIntent env now2 (Str u2) ents2
            (turn_state (handleEmailIntent env now1 (Str u1) ents1 st))) = []"
  proof (rule ccontr)
    assume "\<not> ?thesis"
    then have "turn_calls (email_turn env now2 (Str u2) ents2
            (turn_state (handleEmailIntent env now1 (Str u1) ents1 st))) \<noteq> []"
      by (simp add: handleEmailIntent_calls)
    from email_turn_calls[OF this]
    have "e_stage (turn_state (handleEmailIntent env now1 (Str u1) ents1 st)) = M_confirming"
      by simp
    then show False
      by (simp add: first turn_state_def reset_email_def split: if_splits)
  qed
next
  fix now inp ents
  assume "turn_calls (handleEmailIntent env now inp ents st) \<noteq> []"
  then have "turn_calls (email_turn env now inp ents st) \<noteq> []"
    by (simp add: handleEmailIntent_calls)
  from email_turn_calls[OF this] show "\<exists>y. inp = Str y \<and> says_yes y" by simp
next
  fix now y ents
  assume h: "says_yes y \<and> \<not> mail_timed_out now st"
  then have yes: "handleEmailIntent env now (Str y) ents st =
           (SendResult (sendEmail env (e_to (e_data st)) (e_subject (e_data st)) (e_body (e_data st))),
            reset_email,
            [(e_to (e_data st), e_subject (e_data st), e_body (e_data st))])"
    using act stg by (simp add: confirming_yes)
  show "turn_calls (handleEmailIntent env now (Str y) ents st) =
              [(e_to (e_data st), e_subject (e_data st), e_body (e_data st))]"
    by (simp add: yes turn_calls_def)
  show "turn_state (handleEmailIntent env now (Str y) ents st) = reset_email"
    by (simp add: yes turn_state_def)
  show "\<not> e_active (turn_state (handleEmailIntent env now (Str y) ents st))"
    by (simp add: yes turn_state_def reset_email_def)
qed

text \<open>Witness for C1: a waiting draft, ``no'', ``No thanks'', and ``Yes please''.\<close>

theorem mail_confirming_send_only_on_yes_witness:
  "turn_calls (handleEmailIntent offline_mail_env 1000 (Str ''no'') [] draft_waiting) = [] \<and>
   turn_state (handleEmailIntent offline_mail_env 1000 (Str ''no'') [] draft_waiting)
     = draft_waiting\<lparr>e_stage := M_editing\<rparr> \<and>
   turn_calls (handleEmailIntent offline_mail_env 2000 (Str ''No thanks'') []
     (draft_waiting\<lparr>e_stage := M_editing\<rparr>)) = [] \<and>
   turn_calls (handleEmailIntent offline_mail_env 3000 (Str ''Yes please'') [] draft_waiting)
     = [(Some ''bob@example.com'', ''Budget'', ''Hello Bob'')] \<and>
   turn_state (handleEmailIntent offline_mail_env 3000 (Str ''Yes please'') [] draft_waiting)
     = reset_email"
proof -
  have a: "e_active draft_waiting" "e_stage draft_waiting = M_confirming"
    by (simp_all add: draft_waiting_def)
  have t: "\<not> mail_timed_out 1000 draft_waiting" "\<not> mail_timed_out 3000 draft_waiting"
    by (simp_all add: mail_timed_out_def draft_waiting_def)
  from mail_confirming_send_only_on_yes[OF a says_examples(1) says_examples(2),
      of offline_mail_env 1000 "[]" 2000 "[]"] t says_examples(3)
  show ?thesis
    by (auto simp: draft_waiting_def)
qed

text \<open>
  Claim C1 as stated fails on a timed-out session: 900001 ms after the flow started, the
  answer ``no'' in the \<open>confirming\<close> stage resets the flow (stage \<open>init\<close>,
  inactive) instead of moving it to \<open>editing\<close>.
\<close>

theorem mail_confirming_timeout_counterexample:
  "e_active draft_waiting \<and> e_stage draft_waiting = M_confirming \<and> says_no ''no'' \<and>
   handleEmailIntent offline_mail_env 900001 (Str ''no'') [] draft_waiting
     = (MailTimedOut, reset_email, []) \<and>
   e_stage (turn_state (handleEmailIntent offline_mail_env 900001 (Str ''no'') [] draft_waiting))
     \<noteq> M_editing"
  by (simp add: handleEmailIntent_def email_turn_def draft_waiting_def mail_timed_out_def
        says_examples turn_state_def reset_email_def)

section \<open>Scheduling flow: proofs\<close>

text \<open>\<open>suggestAvailableTimes\<close> writes the suggestions and nothing else.\<close>

lemma suggestAvailableTimes_frame:
  "s_stage (snd (suggestAvailableTimes env now st)) = s_stage st \<and>
   s_active (snd (suggestAvailableTimes env now st)) = s_active st \<and>
   s_data (snd (suggestAvailableTimes env now st)) =
     (s_data st)\<lparr>s_suggestedTimes := s_suggestedTimes (s_data (snd (suggestAvailableTimes env now st)))\<rparr>"
  by (simp add: suggestAvailableTimes_def Let_def)

lemma suggest_case:
  "(case suggestAvailableTimes env now st of (reply, st') \<Rightarrow> (Returned reply, st', cs)) =
   (Returned (fst (suggestAvailableTimes env now st)), snd (suggestAvailableTimes env now st), cs)"
  by (simp add: case_prod_beta)

lemma handle_Returned:
  "schedule_turn env now inp st = (Returned r, st', cs) \<Longrightarrow>
   handleScheduleIntent env now inp st = (r, st', cs)"
  by (simp add: handleScheduleIntent_def)

lemma handle_Threw:
  "schedule_turn env now inp st = (Threw, st', cs) \<Longrightarrow>
   handleScheduleIntent env now inp st = (SchedError, st', cs)"
  by (simp add: handleScheduleIntent_def)

lemma activation_no_date:
  assumes "\<not> s_active st" "u \<noteq> []" "\<not> truthy (p_date (parseDateAndTime (parsing env) (Str u)))"
  shows "s_stage (turn_state (handleScheduleIntent env now (Str u) st)) = S_collecting_date \<and>
         s_active (turn_state (handleScheduleIntent env now (Str u) st))"
  using assms
  by (simp add: handleScheduleIntent_def schedule_turn_def Let_def turn_state_def fresh_schedule_def)

lemma activation_date_only:
  assumes "\<not> s_active st" "u \<noteq> []" "truthy (p_date (parseDateAndTime (parsing env) (Str u)))"
          "\<not> truthy (p_time (parseDateAndTime (parsing env) (Str u)))"
  shows "s_stage (turn_state (handleScheduleIntent env now (Str u) st)) = S_suggesting_time \<and>
         s_active (turn_state (handleScheduleIntent env now (Str u) st))"
  using assms
  by (simp add: handleScheduleIntent_def schedule_turn_def Let_def turn_state_def fresh_schedule_def
        suggest_case suggestAvailableTimes_frame)

lemma activation_date_time:
  assumes "\<not> s_active st" "u \<noteq> []"
      and "truthy (p_date (parseDateAndTime (parsing env) (Str u)))"
      and "truthy (p_time (parseDateAndTime (parsing env) (Str u)))"
      and "literal_start (tzOffset env)
             (newDate env (the (p_date (parseDateAndTime (parsing env) (Str u)))))
             (hours_minutes (the (p_time (parseDateAndTime (parsing env) (Str u))))) = DateAt s"
      and "literal_end (DateAt s)
             (s_duration (merge_parsed (s_data (fresh_schedule now))
                            (parseDateAndTime (parsing env) (Str u)))) = DateAt e"
  shows "s_active (turn_state (handleScheduleIntent env now (Str u) st)) \<and>
         (if s < now \<or> checkForConflicts env s e \<noteq> []
          then s_stage (turn_state (handleScheduleIntent env now (Str u) st)) = S_suggesting_time
          else s_stage (turn_state (handleScheduleIntent env now (Str u) st)) = S_confirming \<and>
               s_startTime (s_data (turn_state (handleScheduleIntent env now (Str u) st)))
                 = Some (ISO s) \<and>
               s_endTime (s_data (turn_state (handleScheduleIntent env now (Str u) st)))
                 = Some (ISO e))"
  using assms
  by (simp add: handleScheduleIntent_def schedule_turn_def Let_def turn_state_def
        fresh_schedule_def suggest_case suggestAvailableTimes_frame)

text \<open>
  The stage after an activation (the flow is inactive and the input is a non-empty string)
  whose parse result gives valid dates. If the result carries a date and a time from which
  the handler computes a valid start and a valid end (\<open>setHours\<close> on the date gives a
  \<open>Date\<close> \<open>s\<close>, and \<open>setMinutes\<close> with the merged duration gives a \<open>Date\<close> \<open>e\<close>): when
  the start is in the past or \<open>checkForConflicts\<close> returns an event the stage becomes
  \<open>suggesting_time\<close>, and otherwise it becomes \<open>confirming\<close> with that start and end
  bound. If it carries a date and no time the stage becomes \<open>suggesting_time\<close>. If it
  carries no date the stage becomes \<open>collecting_date\<close>. The case left out, a date and a
  time with an invalid start or end, is the one of \<open>schedule_thrown_stays_active\<close> below.
\<close>

lemma activation_on_valid_dates:
  assumes inactive: "\<not> s_active st" and input: "u \<noteq> []"
  shows
    "(\<forall>s e.
        truthy (p_date (parseDateAndTime (parsing env) (Str u))) \<and>
        truthy (p_time (parseDateAndTime (parsing env) (Str u))) \<and>
        literal_start (tzOffset env)
          (newDate env (the (p_date (parseDateAndTime (parsing env) (Str u)))))
          (hours_minutes (the (p_time (parseDateAndTime (parsing env) (Str u))))) = DateAt s \<and>
        literal_end (DateAt s)
          (s_duration (merge_parsed (s_data (fresh_schedule now))
                         (parseDateAndTime (parsing env) (Str u)))) = DateAt e \<longrightarrow>
        (s < now \<or> checkForConflicts env s e \<noteq> [] \<longrightarrow>
           s_stage (turn_state (handleScheduleIntent env now (Str u) st)) = S_suggesting_time) \<and>
        (\<not> s < now \<and> checkForConflicts env s e = [] \<longrightarrow>
           s_stage (turn_state (handleScheduleIntent env now (Str u) st)) = S_confirming \<and>
           s_startTime (s_data (turn_state (handleScheduleIntent env now (Str u) st)))
             = Some (ISO s) \<and>
           s_endTime (s_data (turn_state (handleScheduleIntent env now (Str u) st)))
             = Some (ISO e))) \<and>
     (truthy (p_date (parseDateAndTime (parsing env) (Str u))) \<and>
      \<not> truthy (p_time (parseDateAndTime (parsing env) (Str u))) \<longrightarrow>
        s_stage (turn_state (handleScheduleIntent env now (Str u) st)) = S_suggesting_time) \<and>
     (\<not> truthy (p_date (parseDateAndTime (parsing env) (Str u))) \<longrightarrow>
        s_stage (turn_state (handleScheduleIntent env now (Str u) st)) = S_collecting_date)"
proof (intro conjI allI impI)
  fix s e
  assume h: "truthy (p_date (parseDateAndTime (parsing env) (Str u))) \<and>
        truthy (p_time (parseDateAndTime (parsing env) (Str u))) \<and>
        literal_start (tzOffset env)
          (newDate env (the (p_date (parseDateAndTime (parsing env) (Str u)))))
          (hours_minutes (the (p_time (parseDateAndTime (parsing env) (Str u))))) = DateAt s \<and>
        literal_end (DateAt s)
          (s_duration (merge_parsed (s_data (fresh_schedule now))
                         (parseDateAndTime (parsing env) (Str u)))) = DateAt e"
  note dt = activation_date_time[OF inactive input, of env s now e]
  {
    assume "s < now \<or> checkForConflicts env s e \<noteq> []"
    with dt h show "s_stage (turn_state (handleScheduleIntent env now (Str u) st)) = S_suggesting_time"
      by presburger
  }
  {
    assume free: "\<not> s < now \<and> checkForConflicts env s e = []"
    with dt h show "s_stage (turn_state (handleScheduleIntent env now (Str u) st)) = S_confirming"
      by presburger
    from free dt h show "s_startTime (s_data (turn_state (handleScheduleIntent env now (Str u) st)))
             = Some (ISO s)"
      by presburger
    from free dt h show "s_endTime (s_data (turn_state (handleScheduleIntent env now (Str u) st)))
             = Some (ISO e)"
      by presburger
  }
next
  assume "truthy (p_date (parseDateAndTime (parsing env) (Str u))) \<and>
      \<not> truthy (p_time (parseDateAndTime (parsing env) (Str u)))"
  then show "s_stage (turn_state (handleScheduleIntent env now (Str u) st)) = S_suggesting_time"
    using activation_date_only[OF inactive input, of env now] by simp
next
  assume "\<not> truthy (p_date (parseDateAndTime (parsing env) (Str u)))"
  then show "s_stage (turn_state (handleScheduleIntent env now (Str u) st)) = S_collecting_date"
    using activation_no_date[OF inactive input, of env now] by simp
qed

text \<open>
  At a concrete request: ``Schedule a meeting called Standup tomorrow at 9am'' with an
  empty calendar reaches \<open>confirming\<close> with start 2025-04-02 09:00 and end 10:00 (UTC).
\<close>

lemma standup_parsed:
  "parseDateAndTime (parsing standup_sched_env)
      (Str ''Schedule a meeting called Standup tomorrow at 9am'')
    = default_parsed\<lparr>p_date := Some ''2025-04-02'', p_time := Some ''09:00'',
                       p_title := Some ''Standup''\<rparr>"
  by (simp add: parseDateAndTime_def standup_sched_env_def standup_parse_env_def
        offline_sched_env_def inferDuration_def default_parsed_def truthy_def truthy_num_def)

lemma hours_minutes_0900: "hours_minutes ''09:00'' = (Num 9, Num 0)"
  by (simp add: hours_minutes_def js_Number_def trim_def is_space_def decimal_def
        is_digit_def digit_val_def)

lemma activation_standup_example:
  "s_stage (turn_state (handleScheduleIntent standup_sched_env 1743508800000
      (Str ''Schedule a meeting called Standup tomorrow at 9am'') (initial_schedule 0)))
     = S_confirming \<and>
   s_startTime (s_data (turn_state (handleScheduleIntent standup_sched_env 1743508800000
      (Str ''Schedule a meeting called Standup tomorrow at 9am'') (initial_schedule 0))))
     = Some (ISO 1743584400000) \<and>
   s_endTime (s_data (turn_state (handleScheduleIntent standup_sched_env 1743508800000
      (Str ''Schedule a meeting called Standup tomorrow at 9am'') (initial_schedule 0))))
     = Some (ISO 1743588000000)"
proof -
  let ?u = "''Schedule a meeting called Standup tomorrow at 9am''"
  have a: "\<not> s_active (initial_schedule 0)"
    by (simp add: initial_schedule_def)
  have b: "?u \<noteq> []" by simp
  have pre: "truthy (p_date (parseDateAndTime (parsing standup_sched_env) (Str ?u))) \<and>
        truthy (p_time (parseDateAndTime (parsing standup_sched_env) (Str ?u))) \<and>
        literal_start (tzOffset standup_sched_env)
          (newDate standup_sched_env
             (the (p_date (parseDateAndTime (parsing standup_sched_env) (Str ?u)))))
          (hours_minutes (the (p_time (parseDateAndTime (parsing standup_sched_env) (Str ?u)))))
          = DateAt 1743584400000 \<and>
        literal_end (DateAt 1743584400000)
          (s_duration (merge_parsed (s_data (fresh_schedule 1743508800000))
                         (parseDateAndTime (parsing standup_sched_env) (Str ?u))))
          = DateAt 1743588000000"
    unfolding standup_parsed
    by (simp add: truthy_def default_parsed_def hours_minutes_0900 literal_start_def
          literal_end_def timeClip_def setHours_def DAY_def HOUR_def MINUTE_def
          merge_parsed_def has_key_def fresh_schedule_def standup_sched_env_def
          offline_sched_env_def)
  have free: "\<not> (1743584400000::int) < 1743508800000 \<and>
         checkForConflicts standup_sched_env 1743584400000 1743588000000 = []"
    by (simp add: standup_sched_env_def offline_sched_env_def)
  show ?thesis
    by (rule activation_on_valid_dates[OF a b, of standup_sched_env 1743508800000,
      THEN conjunct1, rule_format, OF pre, THEN conjunct2, rule_format, OF free])
qed

text \<open>
  What the merge and the \<open>Date\<close> range do to the end of the literal time: a parse result
  without the key \<open>duration\<close> keeps the 60 minutes of a new flow, one with \<open>null\<close>
  there adds nothing, and an end beyond the range is \<open>Invalid Date\<close>, on which
  \<open>toISOString()\<close> throws.
\<close>

lemma merge_absent_duration:
  "K_duration \<in> set (p_absent p) \<Longrightarrow>
   s_duration (merge_parsed (s_data (fresh_schedule now)) p) = Some (Num 60)"
  by (simp add: merge_parsed_def has_key_def fresh_schedule_def)

lemma merge_present_duration:
  "K_duration \<notin> set (p_absent p) \<Longrightarrow>
   s_duration (merge_parsed (s_data (fresh_schedule now)) p) = p_duration p"
  by (simp add: merge_parsed_def has_key_def)

lemma literal_end_range:
  "literal_end (DateAt 8640000000000000) (Some (Num 1)) = InvalidDate \<and>
   literal_end (DateAt 8640000000000000) None = DateAt 8640000000000000 \<and>
   literal_end (DateAt 1743584400000) (Some (Num 60)) = DateAt 1743588000000"
  by (simp add: literal_end_def timeClip_def MINUTE_def)

lemma activation_end_out_of_range:
  assumes "\<not> s_active st" "u \<noteq> []"
      and "truthy (p_date (parseDateAndTime (parsing env) (Str u)))"
      and "truthy (p_time (parseDateAndTime (parsing env) (Str u)))"
      and "literal_start (tzOffset env)
             (newDate env (the (p_date (parseDateAndTime (parsing env) (Str u)))))
             (hours_minutes (the (p_time (parseDateAndTime (parsing env) (Str u))))) = DateAt s"
      and "literal_end (DateAt s)
             (s_duration (merge_parsed (s_data (fresh_schedule now))
                            (parseDateAndTime (parsing env) (Str u)))) = InvalidDate"
  shows "handleScheduleIntent env now (Str u) st =
           (SchedError,
            (fresh_schedule now)
              \<lparr>s_data := (merge_parsed (s_data (fresh_schedule now))
                             (parseDateAndTime (parsing env) (Str u)))
                  \<lparr>s_dateObj := Some (newDate env
                       (the (p_date (parseDateAndTime (parsing env) (Str u))))),
                   s_startTime := Some (ISO s)\<rparr>\<rparr>, [])"
  using assms
  by (simp add: handleScheduleIntent_def schedule_turn_def Let_def)

text \<open>The \<open>suggesting_time\<close> case of the \<open>switch\<close>, for a session that has not timed
  out.\<close>

lemma suggesting_time_turn:
  assumes "s_active st" "s_stage st = S_suggesting_time" "\<not> sched_timed_out now st"
  shows "handleScheduleIntent env now (Str u) st =
          (if u = [] then (ProvideDetails, st, [])
           else if is_choice (trim u) then
             (if choice_index (trim u) < length (s_suggestedTimes (s_data st)) then
                (ConfirmSelected (s_title (s_data st))
                   (displayText (s_suggestedTimes (s_data st) ! choice_index (trim u))),
                 st\<lparr>s_data := (s_data st)
                      \<lparr>s_startTime := Some (ISO (slot_start (s_suggestedTimes (s_data st) ! choice_index (trim u)))),
                       s_endTime := Some (ISO (slot_end (s_suggestedTimes (s_data st) ! choice_index (trim u))))\<rparr>,
                    s_stage := S_confirming\<rparr>, [])
              else (SelectValid, st, []))
           else (SelectValidOrTime, st, []))"
  using assms by (simp add: handleScheduleIntent_def schedule_turn_def Let_def)

lemma trim_empty: "trim [] = []"
  by (simp add: trim_def)

lemma not_choice_empty: "\<not> is_choice []"
  by (simp add: is_choice_def)

text \<open>
  Claim C10, as amended. In the \<open>suggesting_time\<close> stage of a session that has not timed
  out, any input whose trimmed text is not exactly a single digit 1 to 5 (also an input
  that is not a string), and any digit whose index is beyond the stored suggestions,
  returns a re-prompt message and leaves the flow state unchanged: same stage, same
  suggestions, no start or end bound, no event created, no read out of bounds. A selection
  binds start and end, and moves to \<open>confirming\<close>, only when the indexed suggestion
  exists.
\<close>

theorem suggesting_time_selection:
  assumes act: "s_active st" and stg: "s_stage st = S_suggesting_time"
      and live: "\<not> sched_timed_out now st"
  shows
    "(\<not> is_choice (trim u) \<or> length (s_suggestedTimes (s_data st)) \<le> choice_index (trim u) \<longrightarrow>
        turn_state (handleScheduleIntent env now (Str u) st) = st \<and>
        turn_calls (handleScheduleIntent env now (Str u) st) = [] \<and>
        turn_reply (handleScheduleIntent env now (Str u) st)
          \<in> {ProvideDetails, SelectValid, SelectValidOrTime}) \<and>
     (is_choice (trim u) \<and> choice_index (trim u) < length (s_suggestedTimes (s_data st)) \<longrightarrow>
        handleScheduleIntent env now (Str u) st =
          (ConfirmSelected (s_title (s_data st))
             (displayText (s_suggestedTimes (s_data st) ! choice_index (trim u))),
           st\<lparr>s_data := (s_data st)
                \<lparr>s_startTime := Some (ISO (slot_start (s_suggestedTimes (s_data st) ! choice_index (trim u)))),
                 s_endTime := Some (ISO (slot_end (s_suggestedTimes (s_data st) ! choice_index (trim u))))\<rparr>,
              s_stage := S_confirming\<rparr>, [])) \<and>
     handleScheduleIntent env now NotString st = (ProvideDetails, st, []) \<and>
     (turn_state (handleScheduleIntent env now (Str u) st) \<noteq> st \<longrightarrow>
        is_choice (trim u) \<and> choice_index (trim u) < length (s_suggestedTimes (s_data st)))"
proof -
  note t = suggesting_time_turn[OF act stg live, of env u]
  have 1: "\<not> is_choice (trim u) \<or> length (s_suggestedTimes (s_data st)) \<le> choice_index (trim u) \<longrightarrow>
        turn_state (handleScheduleIntent env now (Str u) st) = st \<and>
        turn_calls (handleScheduleIntent env now (Str u) st) = [] \<and>
        turn_reply (handleScheduleIntent env now (Str u) st)
          \<in> {ProvideDetails, SelectValid, SelectValidOrTime}"
    unfolding t by (auto simp: turn_state_def turn_calls_def turn_reply_def)
  have 2: "is_choice (trim u) \<and> choice_index (trim u) < length (s_suggestedTimes (s_data st)) \<longrightarrow>
        handleScheduleIntent env now (Str u) st =
          (ConfirmSelected (s_title (s_data st))
             (displayText (s_suggestedTimes (s_data st) ! choice_index (trim u))),
           st\<lparr>s_data := (s_data st)
                \<lparr>s_startTime := Some (ISO (slot_start (s_suggestedTimes (s_data st) ! choice_index (trim u)))),
                 s_endTime := Some (ISO (slot_end (s_suggestedTimes (s_data st) ! choice_index (trim u))))\<rparr>,
              s_stage := S_confirming\<rparr>, [])"
    unfolding t by (auto simp: trim_empty not_choice_empty)
  have 3: "handleScheduleIntent env now NotString st = (ProvideDetails, st, [])"
    by (simp add: handleScheduleIntent_def schedule_turn_def)
  have 4: "turn_state (handleScheduleIntent env now (Str u) st) \<noteq> st \<longrightarrow>
        is_choice (trim u) \<and> choice_index (trim u) < length (s_suggestedTimes (s_data st))"
    using 1 by auto
  from 1 2 3 4 show ?thesis by blast
qed

lemma trim_examples: "trim '' 3'' = ''3''" "trim ''2'' = ''2''" "trim ''4'' = ''4''" "trim ''tomorrow'' = ''tomorrow''"
  by (simp_all add: trim_def is_space_def)

lemma choice_examples:
  "is_choice ''3''" "choice_index ''3'' = 2" "is_choice ''2''" "choice_index ''2'' = 1"
  "is_choice ''4''" "choice_index ''4'' = 3" "\<not> is_choice ''tomorrow''"
  by (simp_all add: is_choice_def choice_index_def)

lemma three_offers_facts:
  "s_active three_offers" "s_stage three_offers = S_suggesting_time"
  "\<not> sched_timed_out 1000 three_offers" "length (s_suggestedTimes (s_data three_offers)) = 3"
  by (simp_all add: three_offers_def fresh_schedule_def sched_timed_out_def)

text \<open>Witness for C10: three suggestions; ``2'' selects the second, ``4'' and
  ``tomorrow'' change nothing.\<close>

theorem suggesting_time_selection_witness:
  "handleScheduleIntent offline_sched_env 1000 (Str ''2'') three_offers =
     (ConfirmSelected (Some ''Standup'') ''9:30 AM - 10:30 AM'',
      three_offers\<lparr>s_data := (s_data three_offers)
           \<lparr>s_startTime := Some (ISO 34200000), s_endTime := Some (ISO 37800000)\<rparr>,
         s_stage := S_confirming\<rparr>, []) \<and>
   turn_state (handleScheduleIntent offline_sched_env 1000 (Str ''4'') three_offers) = three_offers \<and>
   turn_state (handleScheduleIntent offline_sched_env 1000 (Str ''tomorrow'') three_offers) = three_offers"
proof -
  note th = suggesting_time_selection[OF three_offers_facts(1,2,3), of _ offline_sched_env]
  have a: "handleScheduleIntent offline_sched_env 1000 (Str ''2'') three_offers =
     (ConfirmSelected (Some ''Standup'') ''9:30 AM - 10:30 AM'',
      three_offers\<lparr>s_data := (s_data three_offers)
           \<lparr>s_startTime := Some (ISO 34200000), s_endTime := Some (ISO 37800000)\<rparr>,
         s_stage := S_confirming\<rparr>, [])"
    using th[of "''2''"]
    by (simp add: trim_examples choice_examples three_offers_facts)
       (simp add: three_offers_def fresh_schedule_def)
  have b: "turn_state (handleScheduleIntent offline_sched_env 1000 (Str ''4'') three_offers) = three_offers"
    using th[of "''4''"]
    by (simp add: trim_examples choice_examples three_offers_facts)
  have c: "turn_state (handleScheduleIntent offline_sched_env 1000 (Str ''tomorrow'') three_offers) = three_offers"
    using th[of "''tomorrow''"]
    by (simp add: trim_examples choice_examples three_offers_facts)
  from a b c show ?thesis by simp
qed

text \<open>
  Claim C10 as stated fails: the input \<open>'' 3''\<close> (a space, then the digit) is not
  exactly a single digit, yet the handler trims it and binds the third suggestion.
\<close>

theorem suggesting_time_padded_digit_counterexample:
  "'' 3'' \<notin> {''1'', ''2'', ''3'', ''4'', ''5''} \<and>
   s_stage three_offers = S_suggesting_time \<and>
   handleScheduleIntent offline_sched_env 1000 (Str '' 3'') three_offers =
     (ConfirmSelected (Some ''Standup'') ''10:00 AM - 11:00 AM'',
      three_offers\<lparr>s_data := (s_data three_offers)
           \<lparr>s_startTime := Some (ISO 36000000), s_endTime := Some (ISO 39600000)\<rparr>,
         s_stage := S_confirming\<rparr>, []) \<and>
   turn_state (handleScheduleIntent offline_sched_env 1000 (Str '' 3'') three_offers) \<noteq> three_offers"
proof -
  have r: "handleScheduleIntent offline_sched_env 1000 (Str '' 3'') three_offers =
     (ConfirmSelected (Some ''Standup'') ''10:00 AM - 11:00 AM'',
      three_offers\<lparr>s_data := (s_data three_offers)
           \<lparr>s_startTime := Some (ISO 36000000), s_endTime := Some (ISO 39600000)\<rparr>,
         s_stage := S_confirming\<rparr>, [])"
    by (simp add: suggesting_time_turn[OF three_offers_facts(1,2,3)] trim_examples choice_examples
          three_offers_facts)
       (simp add: three_offers_def fresh_schedule_def)
  show ?thesis
    unfolding r by (simp add: turn_state_def three_offers_def fresh_schedule_def)
qed

text \<open>On a timed-out session the handler deactivates the flow at any stage, before the
  \<open>switch\<close>.\<close>

lemma suggesting_time_timeout_deactivates:
  "s_active st \<Longrightarrow> sched_timed_out now st \<Longrightarrow> u \<noteq> [] \<Longrightarrow>
   handleScheduleIntent env now (Str u) st = (SchedTimedOut, st\<lparr>s_active := False\<rparr>, [])"
  by (simp add: handleScheduleIntent_def schedule_turn_def)

text \<open>
  The handlers and exceptions. The mail handler's \<open>catch\<close> resets the flow
  (\<open>handleEmailIntent_thrown\<close> above). The scheduling handler's \<open>catch\<close> only returns
  its message: on activation the state is already \<open>active\<close> with stage
  \<open>parsing_request\<close> when \<open>toISOString()\<close> throws on an invalid date, and it stays so.
\<close>

lemma bad_date_parsed:
  "parseDateAndTime (parsing offline_sched_env) (Str ''Schedule sync on 2025-13-45 at 10:00'')
    = default_parsed\<lparr>p_date := Some ''2025-13-45'', p_time := Some ''10:00'',
                       p_title := Some ''Schedule sync''\<rparr>"
  by (simp add: parseDateAndTime_def offline_sched_env_def offline_parse_env_def)

lemma schedule_throw_keeps_active:
  assumes "\<not> s_active st" "u \<noteq> []"
      and "truthy (p_date (parseDateAndTime (parsing env) (Str u)))"
      and "truthy (p_time (parseDateAndTime (parsing env) (Str u)))"
      and "newDate env (the (p_date (parseDateAndTime (parsing env) (Str u)))) = InvalidDate"
  shows "turn_reply (handleScheduleIntent env now (Str u) st) = SchedError \<and>
         s_active (turn_state (handleScheduleIntent env now (Str u) st)) \<and>
         s_stage (turn_state (handleScheduleIntent env now (Str u) st)) = S_parsing_request"
  using assms
  by (simp add: handleScheduleIntent_def schedule_turn_def Let_def turn_state_def turn_reply_def
        fresh_schedule_def literal_start_def)

text \<open>
  Claim C2 (every exception inside a flow's turn handler leaves the flow inactive) fails
  for the scheduling flow. At a concrete input: with the completion service down, the
  request
  ``Schedule sync on 2025-13-45 at 10:00'' is parsed by the regular expressions into the
  date text \<open>2025-13-45\<close> and the time \<open>10:00\<close>; the date is invalid, the handler
  returns its error message, and the flow is left active in stage \<open>parsing_request\<close>.
\<close>

theorem schedule_error_leaves_flow_active:
  "turn_reply (handleScheduleIntent offline_sched_env 1000
      (Str ''Schedule sync on 2025-13-45 at 10:00'') (initial_schedule 0)) = SchedError \<and>
   s_active (turn_state (handleScheduleIntent offline_sched_env 1000
      (Str ''Schedule sync on 2025-13-45 at 10:00'') (initial_schedule 0))) \<and>
   s_stage (turn_state (handleScheduleIntent offline_sched_env 1000
      (Str ''Schedule sync on 2025-13-45 at 10:00'') (initial_schedule 0))) = S_parsing_request"
proof -
  have a: "\<not> s_active (initial_schedule 0)" by (simp add: initial_schedule_def)
  have b: "''Schedule sync on 2025-13-45 at 10:00'' \<noteq> []" by simp
  have c: "truthy (p_date (parseDateAndTime (parsing offline_sched_env)
              (Str ''Schedule sync on 2025-13-45 at 10:00'')))"
          "truthy (p_time (parseDateAndTime (parsing offline_sched_env)
              (Str ''Schedule sync on 2025-13-45 at 10:00'')))"
    unfolding bad_date_parsed by (simp_all add: truthy_def)
  have d: "newDate offline_sched_env (the (p_date (parseDateAndTime (parsing offline_sched_env)
              (Str ''Schedule sync on 2025-13-45 at 10:00'')))) = InvalidDate"
    by (simp add: offline_sched_env_def)
  show ?thesis
    by (rule schedule_throw_keeps_active[OF a b c d])
qed

text \<open>No case of the \<open>switch\<close> handles \<open>parsing_request\<close>: until the 10-minute
  timeout every further input gets the same answer and changes nothing.\<close>

lemma parsing_request_is_stuck:
  "s_active st \<Longrightarrow> s_stage st = S_parsing_request \<Longrightarrow> \<not> sched_timed_out now st \<Longrightarrow> u \<noteq> [] \<Longrightarrow>
   handleScheduleIntent env now (Str u) st = (NotSure, st, [])"
  by (simp add: handleScheduleIntent_def schedule_turn_def)

text \<open>Every throw of the scheduling handler's body ends this way.\<close>

lemma schedule_thrown_stays_active:
  assumes "fst (schedule_turn env now inp st) = Threw"
  shows "turn_reply (handleScheduleIntent env now inp st) = SchedError \<and>
         s_active (turn_state (handleScheduleIntent env now inp st)) \<and>
         s_stage (turn_state (handleScheduleIntent env now inp st)) = S_parsing_request"
  using assms
  by (cases inp; cases "s_stage st")
     (auto simp: handleScheduleIntent_def schedule_turn_def Let_def case_prod_beta
           turn_reply_def turn_state_def fresh_schedule_def
           split: if_splits jsdate.splits)

text \<open>
  Claim C4 (on activation the stage becomes \<open>suggesting_time\<close>, \<open>confirming\<close> or
  \<open>collecting_date\<close>, as the parse result has a date and a time, a date only, or no
  date) fails at a concrete input, by the defect of the unvalidated date and the \<open>catch\<close>
  that resets nothing: with the completion service down, the request ``Schedule sync on
  2025-13-45 at 10:00'' is parsed by the regular expressions into a date text and a time
  text; the date text is not a date, \<open>toISOString()\<close> throws, and the stage after the
  activation is \<open>parsing_request\<close>, none of the three stages of the claim.
\<close>

theorem schedule_activation_invalid_date_stage:
  "\<not> s_active (initial_schedule 0) \<and>
   truthy (p_date (parseDateAndTime (parsing offline_sched_env)
      (Str ''Schedule sync on 2025-13-45 at 10:00''))) \<and>
   truthy (p_time (parseDateAndTime (parsing offline_sched_env)
      (Str ''Schedule sync on 2025-13-45 at 10:00''))) \<and>
   s_stage (turn_state (handleScheduleIntent offline_sched_env 1000
      (Str ''Schedule sync on 2025-13-45 at 10:00'') (initial_schedule 0)))
     = S_parsing_request \<and>
   s_stage (turn_state (handleScheduleIntent offline_sched_env 1000
      (Str ''Schedule sync on 2025-13-45 at 10:00'') (initial_schedule 0)))
     \<notin> {S_suggesting_time, S_confirming, S_collecting_date}"
proof -
  have a: "\<not> s_active (initial_schedule 0)" by (simp add: initial_schedule_def)
  have b: "''Schedule sync on 2025-13-45 at 10:00'' \<noteq> []" by simp
  have c: "truthy (p_date (parseDateAndTime (parsing offline_sched_env)
              (Str ''Schedule sync on 2025-13-45 at 10:00'')))"
          "truthy (p_time (parseDateAndTime (parsing offline_sched_env)
              (Str ''Schedule sync on 2025-13-45 at 10:00'')))"
    unfolding bad_date_parsed by (simp_all add: truthy_def)
  have d: "newDate offline_sched_env (the (p_date (parseDateAndTime (parsing offline_sched_env)
              (Str ''Schedule sync on 2025-13-45 at 10:00'')))) = InvalidDate"
    by (simp add: offline_sched_env_def)
  from schedule_throw_keeps_active[OF a b c d, of 1000] a c show ?thesis by simp
qed

section \<open>Dialogue orchestrator: proofs\<close>

text \<open>
  Claim C3. For every input text, if the mail composition flow is active,
  \<open>extractEntities(text, 'email_intent')\<close> returns the empty object, whatever the text
  contains, and makes no completion call before returning.
\<close>

theorem extractEntities_suppressed_in_mail_flow:
  assumes "e_active st"
  shows "extractEntities env st text email_intent = ([], [])"
  using assms by (simp add: extractEntities_def isInEmailFlow_def)

text \<open>Witness for C3: a flow collecting the purpose; the text names another recipient.\<close>

theorem extractEntities_suppressed_in_mail_flow_witness:
  "e_active collecting_purpose_state \<and>
   extractEntities eager_extract_env collecting_purpose_state
     ''email carol@example.com about lunch'' email_intent = ([], [])"
proof -
  have a: "e_active collecting_purpose_state"
    by (simp add: collecting_purpose_state_def)
  from extractEntities_suppressed_in_mail_flow[OF a] a show ?thesis by simp
qed

text \<open>With the flow inactive the same text and service yield the recipient, after one
  completion call.\<close>

lemma extractEntities_when_inactive:
  "extractEntities eager_extract_env reset_email ''email carol@example.com about lunch'' email_intent
     = ([(''to'', ''carol@example.com''), (''subject'', ''MISSING''), (''body'', ''MISSING'')],
        [email_intent])"
  by (simp add: extractEntities_def isInEmailFlow_def reset_email_def eager_extract_env_def)

lemma persist_response_persisted:
  "messages st = messages st0 @ [(sid, User, Text u)] \<Longrightarrow>
   persisted sid u (fst (persist_response sid uid u r st)) st0 (snd (persist_response sid uid u r st))"
  by (simp add: persist_response_def persisted_def)

text \<open>
  Persistence of the assistant response. Four of the five dispatch paths
  return before the code that stores the response: a resolved pending confirmation, a
  pending suggestion, an active mail flow, and a general-chat reply that the completion
  service produced. On these the message store gains the user's message only.
\<close>

lemma processInput_early_returns:
  assumes "checkForPendingCalendarEvents env u
             (push_window (User, Said (Text u)) (conversationHistory st0)) = (pend, h)"
  shows "pend \<noteq> None \<or> last_suggestion h \<noteq> None \<or> e_active (emailState st0) \<or>
         (classifyIntent (generateIntent env) u = chat_intent \<and>
          (\<exists>reply. sendMessage env (butlast h) u = Inr reply))
         \<Longrightarrow> messages (snd (processInput env now u sid uid st0)) = messages st0 @ [(sid, User, Text u)]"
  using assms
  by (auto simp: processInput_def Let_def isInEmailFlow_def persist_response_def
           split: option.splits prod.splits intent.splits sum.splits)

text \<open>On the remaining turns (intent dispatch to research, calendar, mail or exit, and the
  general-chat error message) the response is stored after the user's message.\<close>

lemma processInput_dispatch_persists:
  assumes "checkForPendingCalendarEvents env u
             (push_window (User, Said (Text u)) (conversationHistory st0)) = (None, h)"
      and "last_suggestion h = None" and "\<not> e_active (emailState st0)"
      and "classifyIntent (generateIntent env) u = chat_intent \<longrightarrow>
             (\<exists>err. sendMessage env (butlast h) u = Inl err)"
  shows "persisted sid u (fst (processInput env now u sid uid st0)) st0
           (snd (processInput env now u sid uid st0))"
  using assms
  by (auto simp: processInput_def Let_def isInEmailFlow_def persist_response_def persisted_def
           split: option.splits prod.splits intent.splits sum.splits error.splits
                  schedule_response.splits)


text \<open>
  Claim C5 (the response returned to the caller is persisted with the user's message on
  every dispatch path) fails on the early returns. At a concrete turn: a mail flow waits
  for the recipient, the user answers
  ``my boss''; the reply asking for a valid address is returned, and the message store
  holds the user's message and no assistant message.
\<close>

theorem processInput_mail_reply_not_persisted:
  "fst (processInput offline_turn_env 1000 ''my boss'' ''s1'' (Some ''u1'') waiting_for_recipient)
     = MailMessage InvalidAddress \<and>
   messages (snd (processInput offline_turn_env 1000 ''my boss'' ''s1'' (Some ''u1'')
     waiting_for_recipient)) = [(''s1'', User, Text ''my boss'')] \<and>
   \<not> persisted ''s1'' ''my boss'' (MailMessage InvalidAddress) waiting_for_recipient
       (snd (processInput offline_turn_env 1000 ''my boss'' ''s1'' (Some ''u1'')
          waiting_for_recipient))"
proof -
  have h: "handleEmailIntent offline_mail_env 1000 (Str ''my boss'') []
             (collecting_purpose_state\<lparr>e_stage := M_collecting_recipient\<rparr>)
           = (InvalidAddress, collecting_purpose_state\<lparr>e_stage := M_collecting_recipient\<rparr>, [])"
    by (simp add: handleEmailIntent_def email_turn_def collecting_purpose_state_def
          mail_timed_out_def offline_mail_env_def)
  have r: "processInput offline_turn_env 1000 ''my boss'' ''s1'' (Some ''u1'') waiting_for_recipient
      = (MailMessage InvalidAddress,
         waiting_for_recipient
           \<lparr>conversationHistory := [(User, Said (Text ''my boss'')),
                                    (Assistant, Said (MailMessage InvalidAddress))],
            messages := [(''s1'', User, Text ''my boss'')]\<rparr>)"
    by (simp add: processInput_def Let_def waiting_for_recipient_def push_window_def
          checkForPendingCalendarEvents_def isInEmailFlow_def offline_turn_env_def h)
       (simp add: collecting_purpose_state_def)
  show ?thesis
    unfolding r by (simp add: persisted_def waiting_for_recipient_def)
qed

end
